theory Spec2Isabelle
  imports Complex_Main
begin

section \<open>JavaScript values\<close>

text \<open>
  The values that flow through the backend: JSON values of the request body, Firestore
  document data, and the objects the handlers build. A number is a real (every finite
  double is one), or one of \<open>Infinity\<close> and \<open>-Infinity\<close> (\<open>JInf True\<close>, \<open>JInf False\<close>; \<open>JSON.parse\<close>
  yields them for numerals such as \<open>1e999\<close>), or NaN; the program only tests numbers for
  truthiness and passes them on. A \<open>Date\<close> is its time in milliseconds since the epoch, a Firestore
  \<open>Timestamp\<close> likewise. An object is the list of its own properties in insertion order.
  Strings are byte strings (UTF-8).
\<close>

datatype jsval =
    JUndefined
  | JNull
  | JBool bool
  | JNum real
  | JInf bool
  | JNaN
  | JStr string
  | JDate int
  | JTimestamp int
  | JObj "(string \<times> jsval) list"
  | JArr "jsval list"

text \<open>What \<open>if (v)\<close>, \<open>!v\<close>, \<open>v ? a : b\<close> and \<open>v || w\<close> test.\<close>

fun truthy :: "jsval \<Rightarrow> bool" where
  "truthy JUndefined = False"
| "truthy JNull = False"
| "truthy (JBool b) = b"
| "truthy (JNum n) = (n \<noteq> 0)"
| "truthy (JInf positive) = True"
| "truthy JNaN = False"
| "truthy (JStr s) = (s \<noteq> [])"
| "truthy (JDate t) = True"
| "truthy (JTimestamp t) = True"
| "truthy (JObj fs) = True"
| "truthy (JArr xs) = True"

fun nullish :: "jsval \<Rightarrow> bool" where
  "nullish JUndefined = True"
| "nullish JNull = True"
| "nullish v = False"

text \<open>A thrown \<open>Error\<close> object, with its \<open>message\<close>.\<close>

datatype js_error = JsError (message: string)

text \<open>
  Reading a data property \<open>v.k\<close>. On \<open>undefined\<close> and \<open>null\<close> it throws a TypeError; on an
  object it yields the own property or \<open>undefined\<close>; on any other value it yields
  \<open>undefined\<close>: the program reads only the keys \<open>timetable\<close>, \<open>exams\<close>, \<open>gpa_data\<close>, \<open>units\<close>,
  \<open>message\<close>, \<open>isUser\<close>, \<open>timestamp\<close>, \<open>nickname\<close>, \<open>course\<close>, \<open>current_semester\<close>,
  \<open>total_semesters\<close>, \<open>choices\<close>, \<open>content\<close>, none of which a built-in prototype defines.
\<close>

text \<open>
  The message of that TypeError, with the property name between apostrophes:
  \<open>Cannot read properties of undefined (reading 'choices')\<close>.
\<close>

definition cannot_read :: "string \<Rightarrow> string \<Rightarrow> string" where
  "cannot_read what k =
     ''Cannot read properties of '' @ what @ '' (reading '' @ [CHR 0x27] @ k @ [CHR 0x27] @ '')''"

fun get_prop :: "jsval \<Rightarrow> string \<Rightarrow> js_error + jsval" where
  "get_prop JUndefined k = Inl (JsError (cannot_read ''undefined'' k))"
| "get_prop JNull k = Inl (JsError (cannot_read ''null'' k))"
| "get_prop (JObj fs) k = Inr (case map_of fs k of None \<Rightarrow> JUndefined | Some v \<Rightarrow> v)"
| "get_prop v k = Inr JUndefined"

text \<open>
  \<open>v?.toDate?.()\<close>. A nullish \<open>v\<close> short-circuits to \<open>undefined\<close>. A Firestore Timestamp has
  the method and returns a Date. A map read from the store has \<open>toDate\<close> only as a data
  property: when that is nullish the call is skipped, otherwise calling it throws, since
  stored data is never a function. Every other value has no \<open>toDate\<close>. The expression
  stands in \<open>getChatHistory\<close> as \<open>d.data().timestamp?.toDate?.()\<close>, which gives the TypeError
  its message.
\<close>

fun opt_toDate :: "jsval \<Rightarrow> js_error + jsval" where
  "opt_toDate JUndefined = Inr JUndefined"
| "opt_toDate JNull = Inr JUndefined"
| "opt_toDate (JTimestamp t) = Inr (JDate t)"
| "opt_toDate (JObj fs) =
     (case map_of fs ''toDate'' of
        None \<Rightarrow> Inr JUndefined
      | Some f \<Rightarrow> if nullish f then Inr JUndefined
                  else Inl (JsError ''d.data(...).timestamp?.toDate is not a function''))"
| "opt_toDate v = Inr JUndefined"

section \<open>The external collaborators and the effects of a request\<close>

datatype variant = ServerJs | Part000

datatype accessor =
  GetUserData | GetTimetable | GetExams | GetGPA | GetCourseUnits | GetChatHistory

text \<open>\<open>snap.exists\<close> and \<open>snap.data()\<close> of a document snapshot.\<close>

record snapshot =
  snap_exists :: bool
  snap_data :: jsval

text \<open>\<open>ref.orderBy(field, direction).limit(n)\<close>\<close>

record chat_query =
  orderBy_field :: string
  orderBy_direction :: string
  limit :: nat

text \<open>The argument of \<open>deepseek.chat.completions.create\<close>; a message is (role, content).\<close>

record chat_request =
  model :: string
  messages :: "(string \<times> jsval) list"
  temperature :: real
  max_tokens :: nat

datatype clock_site = ChatEntry nat | PromptTime

text \<open>
  The world outside the program. Each of the five document reads of a request may
  behave on its own (one may fail while the next succeeds), so the outcome of
  \<open>firestore.collection("users").doc(userId).get()\<close> is given per issuing accessor.
  \<open>chat_get\<close> is the outcome of running a query on the user's \<open>chat_history\<close>
  sub-collection: the \<open>data()\<close> of each returned document, in order. \<open>new_Date\<close> is the
  clock read by each \<open>new Date()\<close>. The last three are the renderings
  \<open>toLocaleString(locale, {timeZone})\<close>, \<open>toISOString()\<close> and \<open>JSON.stringify(v, null, 2)\<close>
  inside a template literal.
\<close>

record env =
  doc_get :: "accessor \<Rightarrow> jsval \<Rightarrow> js_error + snapshot"
  chat_get :: "jsval \<Rightarrow> chat_query \<Rightarrow> js_error + jsval list"
  verifyIdToken :: "jsval \<Rightarrow> js_error + (string \<times> jsval) list"
  completions_create :: "chat_request \<Rightarrow> js_error + jsval"
  new_Date :: "clock_site \<Rightarrow> int"
  toLocaleString :: "int \<Rightarrow> string \<Rightarrow> string \<Rightarrow> string"
  toISOString :: "int \<Rightarrow> string"
  JSON_stringify :: "jsval \<Rightarrow> string"

text \<open>What a request does to the outside, in order.\<close>

datatype event =
    StoreGet accessor jsval
  | StoreQuery jsval chat_query
  | VerifyToken jsval
  | CompletionsCreate chat_request
  | ConsoleError
  | ConsoleLog
  | Respond nat jsval

text \<open>
  A computation yields the events it caused and either the error it threw (\<open>Inl\<close>) or its
  value (\<open>Inr\<close>).
\<close>

type_synonym 'a io = "event list \<times> (js_error + 'a)"

definition ret :: "'a \<Rightarrow> 'a io" where
  "ret x = ([], Inr x)"

definition emit :: "event \<Rightarrow> unit io" where
  "emit ev = ([ev], Inr ())"

definition lift :: "js_error + 'a \<Rightarrow> 'a io" where
  "lift r = ([], r)"

definition bind_io :: "'a io \<Rightarrow> ('a \<Rightarrow> 'b io) \<Rightarrow> 'b io" where
  "bind_io m f =
     (case m of
        (t, Inl e) \<Rightarrow> (t, Inl e)
      | (t, Inr x) \<Rightarrow> (case f x of (t', r) \<Rightarrow> (t @ t', r)))"

text \<open>\<open>try { m } catch (error) { h error }\<close>\<close>

definition try_catch :: "'a io \<Rightarrow> (js_error \<Rightarrow> 'a io) \<Rightarrow> 'a io" where
  "try_catch m h =
     (case m of
        (t, Inl e) \<Rightarrow> (case h e of (t', r) \<Rightarrow> (t @ t', r))
      | (t, Inr x) \<Rightarrow> (t, Inr x))"

definition bind_res :: "js_error + 'a \<Rightarrow> ('a \<Rightarrow> js_error + 'b) \<Rightarrow> js_error + 'b" where
  "bind_res r f = (case r of Inl e \<Rightarrow> Inl e | Inr x \<Rightarrow> f x)"

section \<open>Firestore queries\<close>

text \<open>
  \<open>firestore.collection("users").doc(userId)\<close>. The Firestore client checks the argument
  before anything is sent to the store: a path that is not a non-empty string is refused
  with an Error. So every falsy identifier, and every identifier that is not a string, is
  refused here. What else the client or the store may object to is among the errors that
  \<open>doc_get\<close> and \<open>chat_get\<close> answer with.
\<close>

fun valid_doc_id :: "jsval \<Rightarrow> bool" where
  "valid_doc_id (JStr s) = (s \<noteq> [])"
| "valid_doc_id v = False"

definition invalid_path :: js_error where
  "invalid_path =
     JsError (''Value for argument '' @ [CHR 0x22] @ ''documentPath'' @ [CHR 0x22]
              @ '' is not a valid resource path. Path must be a non-empty string.'')"

definition doc :: "jsval \<Rightarrow> unit io" where
  "doc userId = (if valid_doc_id userId then ret () else lift (Inl invalid_path))"

text \<open>\<open>await firestore.collection("users").doc(userId).get()\<close>, issued by accessor \<open>a\<close>.\<close>

definition user_doc_get :: "env \<Rightarrow> accessor \<Rightarrow> jsval \<Rightarrow> snapshot io" where
  "user_doc_get w a userId =
     bind_io (doc userId) (\<lambda>_. ([StoreGet a userId], doc_get w a userId))"

text \<open>The guard \<open>if (!userId) return null;\<close> stands before the \<open>try\<close> in part_000 only.\<close>

definition getUserData :: "variant \<Rightarrow> env \<Rightarrow> jsval \<Rightarrow> jsval io" where
  "getUserData var w userId =
     (if var = Part000 \<and> \<not> truthy userId then ret JNull
      else try_catch
        (bind_io (user_doc_get w GetUserData userId) (\<lambda>snap.
           ret (if snap_exists snap then snap_data snap else JNull)))
        (\<lambda>error. bind_io (emit ConsoleError) (\<lambda>_. ret JNull)))"

definition getTimetable :: "env \<Rightarrow> jsval \<Rightarrow> jsval io" where
  "getTimetable w userId =
     try_catch
       (bind_io (user_doc_get w GetTimetable userId) (\<lambda>snap.
          if snap_exists snap
          then bind_io (lift (get_prop (snap_data snap) ''timetable'')) (\<lambda>t.
                 ret (if truthy t then t else JObj []))
          else ret (JObj [])))
       (\<lambda>error. bind_io (emit ConsoleError) (\<lambda>_. ret (JObj [])))"

definition getExams :: "env \<Rightarrow> jsval \<Rightarrow> jsval io" where
  "getExams w userId =
     try_catch
       (bind_io (user_doc_get w GetExams userId) (\<lambda>snap.
          if snap_exists snap
          then bind_io (lift (get_prop (snap_data snap) ''exams'')) (\<lambda>x.
                 ret (if truthy x then x else JArr []))
          else ret (JArr [])))
       (\<lambda>error. bind_io (emit ConsoleError) (\<lambda>_. ret (JArr [])))"

definition getGPA :: "env \<Rightarrow> jsval \<Rightarrow> jsval io" where
  "getGPA w userId =
     try_catch
       (bind_io (user_doc_get w GetGPA userId) (\<lambda>snap.
          if snap_exists snap
          then bind_io (lift (get_prop (snap_data snap) ''gpa_data'')) (\<lambda>g.
                 ret (if truthy g then g else JObj []))
          else ret (JObj [])))
       (\<lambda>error. bind_io (emit ConsoleError) (\<lambda>_. ret (JObj [])))"

definition getCourseUnits :: "env \<Rightarrow> jsval \<Rightarrow> jsval io" where
  "getCourseUnits w userId =
     try_catch
       (bind_io (user_doc_get w GetCourseUnits userId) (\<lambda>snap.
          if snap_exists snap
          then bind_io (lift (get_prop (snap_data snap) ''units'')) (\<lambda>u.
                 ret (if truthy u then u else JObj []))
          else ret (JObj [])))
       (\<lambda>error. bind_io (emit ConsoleError) (\<lambda>_. ret (JObj [])))"

text \<open>
  The callback of \<open>snap.docs.map\<close>, applied to the \<open>i\<close>-th document and then to the rest.
  An exception in one callback abandons the whole \<open>map\<close>.
\<close>

definition chat_entry :: "env \<Rightarrow> nat \<Rightarrow> jsval \<Rightarrow> js_error + jsval" where
  "chat_entry w i d =
     bind_res (get_prop d ''message'') (\<lambda>m.
     bind_res (get_prop d ''isUser'') (\<lambda>u.
     bind_res (get_prop d ''timestamp'') (\<lambda>ts.
     bind_res (opt_toDate ts) (\<lambda>c.
       Inr (JObj [(''message'', m), (''isUser'', u),
                  (''timestamp'', if truthy c then c else JDate (new_Date w (ChatEntry i)))])))))"

fun map_docs :: "env \<Rightarrow> nat \<Rightarrow> jsval list \<Rightarrow> js_error + jsval list" where
  "map_docs w i [] = Inr []"
| "map_docs w i (d # ds) =
     bind_res (chat_entry w i d) (\<lambda>e.
     bind_res (map_docs w (Suc i) ds) (\<lambda>es. Inr (e # es)))"

definition chat_history_query :: chat_query where
  "chat_history_query = \<lparr>orderBy_field = ''timestamp'', orderBy_direction = ''desc'', limit = 5\<rparr>"

definition getChatHistory :: "env \<Rightarrow> jsval \<Rightarrow> jsval io" where
  "getChatHistory w userId =
     try_catch
       (bind_io (doc userId) (\<lambda>_.
        bind_io ([StoreQuery userId chat_history_query], chat_get w userId chat_history_query)
          (\<lambda>docs. bind_io (lift (map_docs w 0 docs)) (\<lambda>es. ret (JArr es)))))
       (\<lambda>error. bind_io (emit ConsoleError) (\<lambda>_. ret (JArr [])))"

section \<open>Authentication middleware\<close>

text \<open>\<open>res.status(s).json(b)\<close>, and \<open>res.json(b)\<close> with status 200.\<close>

definition respond :: "nat \<Rightarrow> jsval \<Rightarrow> unit io" where
  "respond s b = emit (Respond s b)"

definition startsWith :: "string \<Rightarrow> string \<Rightarrow> bool" where
  "startsWith s p = (take (length p) s = p)"

text \<open>
  \<open>s.split(sep)\<close> for a non-empty separator: the pieces between the occurrences of \<open>sep\<close>,
  found from the left. \<open>acc\<close> is the current piece, reversed.
\<close>

function split_acc :: "string \<Rightarrow> string \<Rightarrow> string \<Rightarrow> string list" where
  "split_acc sep acc [] = [rev acc]"
| "split_acc sep acc (c # cs) =
     (if startsWith (c # cs) sep
      then rev acc # split_acc sep [] (drop (length sep - 1) cs)
      else split_acc sep (c # acc) cs)"
  by pat_completeness auto
termination
  by (relation "measure (\<lambda>(sep, acc, s). length s)") auto

definition split :: "string \<Rightarrow> string \<Rightarrow> string list" where
  "split s sep = split_acc sep [] s"

text \<open>\<open>xs[i]\<close> on an array of strings: \<open>undefined\<close> past the end.\<close>

definition at_index :: "string list \<Rightarrow> nat \<Rightarrow> jsval" where
  "at_index xs i = (if i < length xs then JStr (xs ! i) else JUndefined)"

text \<open>\<open>authHeader.split("Bearer ")[1]\<close>\<close>

definition bearer_token :: "string \<Rightarrow> jsval" where
  "bearer_token authHeader = at_index (split authHeader ''Bearer '') 1"

text \<open>An own property of an object given by its property list, \<open>undefined\<close> when absent.\<close>

definition field :: "(string \<times> jsval) list \<Rightarrow> string \<Rightarrow> jsval" where
  "field fs k = (case map_of fs k of None \<Rightarrow> JUndefined | Some v \<Rightarrow> v)"

text \<open>
  \<open>authHeader\<close> is \<open>req.headers.authorization\<close>: a string, or \<open>undefined\<close> (here \<open>None\<close>) when
  the header is absent. On these, the test \<open>!authHeader?.startsWith("Bearer ")\<close> of
  server.js and the test \<open>!authHeader || !authHeader.startsWith('Bearer ')\<close> of part_000
  agree. \<open>next\<close> is the route handler, which receives \<open>req.userId\<close>. It is an async
  function, so the call \<open>next()\<close> returns without throwing and the handler's outcome
  never reaches the \<open>catch\<close> of the middleware: the \<open>try\<close> block is modelled up to the
  call, and the call follows it.
\<close>

definition authenticateFirebase :: "env \<Rightarrow> string option \<Rightarrow> (jsval \<Rightarrow> unit io) \<Rightarrow> unit io" where
  "authenticateFirebase w authHeader next =
     (case authHeader of
        None \<Rightarrow> respond 401 (JObj [(''error'', JStr ''Unauthorized. No token provided.'')])
      | Some h \<Rightarrow>
          if \<not> startsWith h ''Bearer ''
          then respond 401 (JObj [(''error'', JStr ''Unauthorized. No token provided.'')])
          else
            let token = bearer_token h in
            bind_io
              (try_catch
                 (bind_io ([VerifyToken token], verifyIdToken w token) (\<lambda>decoded.
                  bind_io (emit ConsoleLog) (\<lambda>_.
                  ret (Some (field decoded ''uid'')))))
                 (\<lambda>error.
                    bind_io (emit ConsoleError) (\<lambda>_.
                    bind_io (respond 401 (JObj [(''error'', JStr ''Invalid or expired token.'')])) (\<lambda>_.
                    ret None))))
              (\<lambda>bound. case bound of None \<Rightarrow> ret () | Some userId \<Rightarrow> next userId))"

section \<open>The /ask handler\<close>

text \<open>\<open>profile ? {nickname: profile.nickname, ...} : {}\<close>\<close>

definition formattedProfile :: "jsval \<Rightarrow> js_error + jsval" where
  "formattedProfile profile =
     (if truthy profile
      then
        bind_res (get_prop profile ''nickname'') (\<lambda>n.
        bind_res (get_prop profile ''course'') (\<lambda>c.
        bind_res (get_prop profile ''current_semester'') (\<lambda>cs.
        bind_res (get_prop profile ''total_semesters'') (\<lambda>ts.
          Inr (JObj [(''nickname'', n), (''course'', c),
                     (''current_semester'', cs), (''total_semesters'', ts)])))))
      else Inr (JObj []))"

text \<open>The characters of the prompts outside ASCII, as their UTF-8 bytes.\<close>

definition nl :: string where
  "nl = [CHR 0x0A]"

definition em_dash :: string where
  "em_dash = [CHR 0xE2, CHR 0x80, CHR 0x94]"

definition en_dash :: string where
  "en_dash = [CHR 0xE2, CHR 0x80, CHR 0x93]"

definition right_quote :: string where
  "right_quote = [CHR 0xE2, CHR 0x80, CHR 0x99]"

definition pushpin :: string where
  "pushpin = [CHR 0xF0, CHR 0x9F, CHR 0x93, CHR 0x8C]"

text \<open>The three parts of the template literal of server.js, and the date and time block.\<close>

definition persona_ServerJs :: string where
  "persona_ServerJs = concat
     [nl,
      ''You are REMI '', em_dash, '' a friendly academic assistant.'', nl,
      nl,
      ''You may use the user'', right_quote, ''s academic data **only if their question is academic**.'', nl,
      nl,
      ''For general questions (life, science, date, time, advice, etc.) answer normally.'', nl,
      nl]"

definition date_block :: "env \<Rightarrow> int \<Rightarrow> string" where
  "date_block w now = concat
     [pushpin, '' **Current Date & Time Info (Uganda):**'', nl,
      ''- Full Date & Time: '', toLocaleString w now ''en-UG'' ''Africa/Kampala'', nl,
      ''- ISO: '', toISOString w now, nl,
      nl]"

definition data_block_ServerJs ::
  "env \<Rightarrow> jsval \<Rightarrow> jsval \<Rightarrow> jsval \<Rightarrow> jsval \<Rightarrow> jsval \<Rightarrow> jsval \<Rightarrow> string" where
  "data_block_ServerJs w profile timetable exams gpa courseUnits lastChats = concat
     [pushpin, '' USER DATA (only use if relevant):'', nl,
      ''PROFILE: '', JSON_stringify w profile, nl,
      ''TIMETABLE: '', JSON_stringify w timetable, nl,
      ''EXAMS: '', JSON_stringify w exams, nl,
      ''GPA: '', JSON_stringify w gpa, nl,
      ''COURSE UNITS: '', JSON_stringify w courseUnits, nl,
      ''RECENT CHATS: '', JSON_stringify w lastChats, nl,
      nl]"

definition rules_ServerJs :: string where
  "rules_ServerJs = concat
     [''RULES:'', nl,
      ''1. If data is missing, say it's unavailable.'', nl,
      ''2. Do NOT invent academic information.'', nl,
      ''3. Keep answers short (1'', en_dash, ''3 paragraphs).'', nl,
      ''4. Friendly & helpful tone.'', nl]"

text \<open>The parts of the template literal of part_000, which reads no clock.\<close>

definition persona_Part000 :: string where
  "persona_Part000 = concat
     [nl,
      ''You are REMI '', em_dash, '' an intelligent student assistant.'', nl,
      ''Use only the following data to answer the user's question.'', nl,
      ''Never make up information.'', nl,
      nl]"

definition data_block_Part000 ::
  "env \<Rightarrow> jsval \<Rightarrow> jsval \<Rightarrow> jsval \<Rightarrow> jsval \<Rightarrow> jsval \<Rightarrow> jsval \<Rightarrow> string" where
  "data_block_Part000 w profile timetable exams gpa courseUnits lastChats = concat
     [''PROFILE:'', nl, JSON_stringify w profile, nl, nl,
      ''TIMETABLE:'', nl, JSON_stringify w timetable, nl, nl,
      ''EXAMS:'', nl, JSON_stringify w exams, nl, nl,
      ''GPA:'', nl, JSON_stringify w gpa, nl, nl,
      ''COURSE UNITS:'', nl, JSON_stringify w courseUnits, nl, nl,
      ''RECENT CHATS:'', nl, JSON_stringify w lastChats, nl, nl]"

definition rules_Part000 :: string where
  "rules_Part000 = concat
     [''RULES:'', nl,
      ''1. If data is missing, politely say you don't have that information.'', nl,
      ''2. Never invent information.'', nl,
      ''3. Keep answers short (1'', en_dash, ''3 paragraphs).'', nl,
      ''4. Friendly and helpful tone.'', nl]"

text \<open>
  \<open>systemPrompt\<close>. In server.js, \<open>now = new Date()\<close> is read just before the template and
  rendered twice; part_000 has neither.
\<close>

definition systemPrompt ::
  "variant \<Rightarrow> env \<Rightarrow> jsval \<Rightarrow> jsval \<Rightarrow> jsval \<Rightarrow> jsval \<Rightarrow> jsval \<Rightarrow> jsval \<Rightarrow> string" where
  "systemPrompt var w profile timetable exams gpa courseUnits lastChats =
     (case var of
        ServerJs \<Rightarrow>
          persona_ServerJs @ date_block w (new_Date w PromptTime)
          @ data_block_ServerJs w profile timetable exams gpa courseUnits lastChats
          @ rules_ServerJs
      | Part000 \<Rightarrow>
          persona_Part000
          @ data_block_Part000 w profile timetable exams gpa courseUnits lastChats
          @ rules_Part000)"

text \<open>
  \<open>v[0]\<close>: a TypeError on \<open>undefined\<close> and \<open>null\<close>, the first element of an array, the
  first character of a string, the property \<open>"0"\<close> of an object, otherwise \<open>undefined\<close>.
\<close>

fun get_first :: "jsval \<Rightarrow> js_error + jsval" where
  "get_first JUndefined = Inl (JsError (cannot_read ''undefined'' ''0''))"
| "get_first JNull = Inl (JsError (cannot_read ''null'' ''0''))"
| "get_first (JArr xs) = Inr (case xs of [] \<Rightarrow> JUndefined | x # _ \<Rightarrow> x)"
| "get_first (JStr s) = Inr (case s of [] \<Rightarrow> JUndefined | c # _ \<Rightarrow> JStr [c])"
| "get_first (JObj fs) = Inr (field fs ''0'')"
| "get_first v = Inr JUndefined"

text \<open>\<open>completion.choices[0].message.content\<close>\<close>

definition answer_of :: "jsval \<Rightarrow> js_error + jsval" where
  "answer_of completion =
     bind_res (get_prop completion ''choices'') (\<lambda>choices.
     bind_res (get_first choices) (\<lambda>choice.
     bind_res (get_prop choice ''message'') (\<lambda>msg.
     get_prop msg ''content'')))"

definition query_required :: "variant \<Rightarrow> string" where
  "query_required var = (case var of ServerJs \<Rightarrow> ''Query is required'' | Part000 \<Rightarrow> ''query is required'')"

definition completion_request :: "string \<Rightarrow> jsval \<Rightarrow> chat_request" where
  "completion_request prompt query =
     \<lparr>model = ''deepseek-chat'',
      messages = [(''system'', JStr prompt), (''user'', query)],
      temperature = 0.3,
      max_tokens = 500\<rparr>"

text \<open>\<open>v.k\<close> where it cannot throw: \<open>undefined\<close> unless \<open>v\<close> is an object with the property.\<close>

definition data_prop :: "jsval \<Rightarrow> string \<Rightarrow> jsval" where
  "data_prop v k = (case v of JObj fs \<Rightarrow> field fs k | _ \<Rightarrow> JUndefined)"

text \<open>
  \<open>const { query, timetable } = req.body\<close>. \<open>req.body\<close> is what \<open>express.json()\<close> parsed; where
  no body was parsed it is \<open>{}\<close> under Express 4 and \<open>undefined\<close> under Express 5. The
  destructuring of \<open>undefined\<close> or \<open>null\<close> throws a TypeError that names the first property.
\<close>

definition destructure_body :: "jsval \<Rightarrow> js_error + jsval \<times> jsval" where
  "destructure_body body =
     (case body of
        JUndefined \<Rightarrow>
          Inl (JsError ''Cannot destructure property 'query' of 'req.body' as it is undefined.'')
      | JNull \<Rightarrow>
          Inl (JsError ''Cannot destructure property 'query' of 'req.body' as it is null.'')
      | _ \<Rightarrow> Inr (data_prop body ''query'', data_prop body ''timetable''))"

text \<open>The route handler; \<open>body\<close> is \<open>req.body\<close> and \<open>userId\<close> is \<open>req.userId\<close>.\<close>

definition ask_handler :: "variant \<Rightarrow> env \<Rightarrow> jsval \<Rightarrow> jsval \<Rightarrow> unit io" where
  "ask_handler var w body userId =
     try_catch
       (bind_io (lift (destructure_body body)) (\<lambda>(query, timetable).
        if \<not> truthy query
        then respond 400 (JObj [(''error'', JStr (query_required var))])
        else
          bind_io (getUserData var w userId) (\<lambda>profile.
          bind_io (if truthy timetable then ret timetable else getTimetable w userId)
            (\<lambda>userTimetable.
          bind_io (getExams w userId) (\<lambda>exams.
          bind_io (getGPA w userId) (\<lambda>gpa.
          bind_io (getCourseUnits w userId) (\<lambda>courseUnits.
          bind_io (getChatHistory w userId) (\<lambda>lastChats.
          bind_io (lift (formattedProfile profile)) (\<lambda>fp.
          let req = completion_request
                      (systemPrompt var w fp userTimetable exams gpa courseUnits lastChats)
                      query in
          bind_io ([CompletionsCreate req], completions_create w req) (\<lambda>completion.
          bind_io (lift (answer_of completion)) (\<lambda>answer.
          respond 200
            (JObj [(''answer'', answer), (''profile'', fp), (''timetable'', userTimetable),
                   (''exams'', exams), (''gpa'', gpa), (''courseUnits'', courseUnits)]))))))))))))
       (\<lambda>err.
          bind_io (emit ConsoleError) (\<lambda>_.
          respond 500 (JObj [(''error'', JStr ''AI processing failed''),
                             (''details'', JStr (message err))])))"

text \<open>
  \<open>app.post("/ask", authenticateFirebase, handler)\<close>, on a request with its
  \<open>Authorization\<close> header and its \<open>req.body\<close>.
\<close>

record request =
  req_authorization :: "string option"
  req_body :: jsval

definition ask_route :: "variant \<Rightarrow> env \<Rightarrow> request \<Rightarrow> unit io" where
  "ask_route var w req =
     authenticateFirebase w (req_authorization req)
       (\<lambda>userId. ask_handler var w (req_body req) userId)"

text \<open>What a trace shows of each collaborator.\<close>

fun responses :: "event list \<Rightarrow> (nat \<times> jsval) list" where
  "responses [] = []"
| "responses (Respond s b # es) = (s, b) # responses es"
| "responses (e # es) = responses es"

fun store_reads :: "event list \<Rightarrow> event list" where
  "store_reads [] = []"
| "store_reads (StoreGet a u # es) = StoreGet a u # store_reads es"
| "store_reads (StoreQuery u q # es) = StoreQuery u q # store_reads es"
| "store_reads (e # es) = store_reads es"

fun completion_calls :: "event list \<Rightarrow> chat_request list" where
  "completion_calls [] = []"
| "completion_calls (CompletionsCreate r # es) = r # completion_calls es"
| "completion_calls (e # es) = completion_calls es"

fun verifications :: "event list \<Rightarrow> jsval list" where
  "verifications [] = []"
| "verifications (VerifyToken t # es) = t # verifications es"
| "verifications (e # es) = verifications es"

section \<open>Notions used to state the properties\<close>

text \<open>
  The value a computation returned. It is applied to the accessors and to
  \<open>formattedProfile\<close> only, which are shown below never to throw.
\<close>

definition value_of :: "'a io \<Rightarrow> 'a" where
  "value_of m = projr (snd m)"

text \<open>The data a request is grounded on, as the handler's variables hold it.\<close>

definition reduced_profile :: "variant \<Rightarrow> env \<Rightarrow> jsval \<Rightarrow> jsval" where
  "reduced_profile var w userId = projr (formattedProfile (value_of (getUserData var w userId)))"

definition effective_timetable :: "env \<Rightarrow> jsval \<Rightarrow> jsval \<Rightarrow> jsval" where
  "effective_timetable w body userId =
     (if truthy (data_prop body ''timetable'') then data_prop body ''timetable''
      else value_of (getTimetable w userId))"

definition ask_prompt :: "variant \<Rightarrow> env \<Rightarrow> jsval \<Rightarrow> jsval \<Rightarrow> string" where
  "ask_prompt var w body userId =
     systemPrompt var w (reduced_profile var w userId) (effective_timetable w body userId)
       (value_of (getExams w userId)) (value_of (getGPA w userId))
       (value_of (getCourseUnits w userId)) (value_of (getChatHistory w userId))"

definition ask_request :: "variant \<Rightarrow> env \<Rightarrow> jsval \<Rightarrow> jsval \<Rightarrow> chat_request" where
  "ask_request var w body userId =
     completion_request (ask_prompt var w body userId) (data_prop body ''query'')"

definition ok_body :: "variant \<Rightarrow> env \<Rightarrow> jsval \<Rightarrow> jsval \<Rightarrow> jsval \<Rightarrow> jsval" where
  "ok_body var w body userId answer =
     JObj [(''answer'', answer), (''profile'', reduced_profile var w userId),
           (''timetable'', effective_timetable w body userId),
           (''exams'', value_of (getExams w userId)), (''gpa'', value_of (getGPA w userId)),
           (''courseUnits'', value_of (getCourseUnits w userId))]"

definition failure_body :: "js_error \<Rightarrow> jsval" where
  "failure_body e =
     JObj [(''error'', JStr ''AI processing failed''), (''details'', JStr (message e))]"

text \<open>The events of the six fetches, and of the completion call with what follows it.\<close>

definition fetch_events :: "variant \<Rightarrow> env \<Rightarrow> jsval \<Rightarrow> jsval \<Rightarrow> event list" where
  "fetch_events var w body userId =
     fst (getUserData var w userId)
     @ (if truthy (data_prop body ''timetable'') then [] else fst (getTimetable w userId))
     @ fst (getExams w userId) @ fst (getGPA w userId)
     @ fst (getCourseUnits w userId) @ fst (getChatHistory w userId)"

definition completion_events :: "variant \<Rightarrow> env \<Rightarrow> jsval \<Rightarrow> jsval \<Rightarrow> event list" where
  "completion_events var w body userId =
     CompletionsCreate (ask_request var w body userId) #
     (case completions_create w (ask_request var w body userId) of
        Inl e \<Rightarrow> [ConsoleError, Respond 500 (failure_body e)]
      | Inr completion \<Rightarrow>
          (case answer_of completion of
             Inl e \<Rightarrow> [ConsoleError, Respond 500 (failure_body e)]
           | Inr answer \<Rightarrow> [Respond 200 (ok_body var w body userId answer)]))"

text \<open>
  The own properties of an object that \<open>JSON.stringify\<close>, and so \<open>res.json\<close>, writes: a
  property whose value is \<open>undefined\<close> is left out.
\<close>

fun is_undefined :: "jsval \<Rightarrow> bool" where
  "is_undefined JUndefined = True"
| "is_undefined v = False"

definition serialised_props :: "(string \<times> jsval) list \<Rightarrow> (string \<times> jsval) list" where
  "serialised_props fs = filter (\<lambda>(k, v). \<not> is_undefined v) fs"

text \<open>
  For the completion answer: how a TypeError names a nullish value, and \<open>xs[0]\<close> of an
  array given by its elements.
\<close>

fun nullish_name :: "jsval \<Rightarrow> string" where
  "nullish_name JNull = ''null''"
| "nullish_name v = ''undefined''"

fun first_elem :: "jsval list \<Rightarrow> jsval" where
  "first_elem [] = JUndefined"
| "first_elem (x # xs) = x"

definition whitelist :: "string list" where
  "whitelist = [''nickname'', ''course'', ''current_semester'', ''total_semesters'']"

text \<open>\<open>s.includes(p)\<close>: \<open>p\<close> occurs in \<open>s\<close>.\<close>

fun str_includes :: "string \<Rightarrow> string \<Rightarrow> bool" where
  "str_includes [] p = (p = [])"
| "str_includes (c # cs) p = (startsWith (c # cs) p \<or> str_includes cs p)"

text \<open>
  Chat history. \<open>uncallable_toDate ts\<close>: the stored \<open>timestamp\<close> is a map with a \<open>toDate\<close>
  entry that is not nullish, the one case where \<open>ts?.toDate?.()\<close> throws. \<open>entry_of w i d\<close>
  is the entry built from the \<open>i\<close>-th returned document otherwise: the converted time of
  a Timestamp, else the clock.
\<close>

definition uncallable_toDate :: "jsval \<Rightarrow> bool" where
  "uncallable_toDate ts = (case ts of JObj fs \<Rightarrow> \<not> nullish (field fs ''toDate'') | _ \<Rightarrow> False)"

definition entry_of :: "env \<Rightarrow> nat \<Rightarrow> jsval \<Rightarrow> jsval" where
  "entry_of w i d =
     JObj [(''message'', data_prop d ''message''), (''isUser'', data_prop d ''isUser''),
           (''timestamp'',
              case data_prop d ''timestamp'' of
                JTimestamp t \<Rightarrow> JDate t
              | _ \<Rightarrow> JDate (new_Date w (ChatEntry i)))]"

text \<open>
  The JSON of the response, for a value that came out of \<open>JSON.parse\<close> (the request body
  and its parts): \<open>json_wire v\<close> is the value a client reads back after \<open>res.json\<close> has
  written \<open>v\<close> with \<open>JSON.stringify\<close>. It is \<open>v\<close> itself, except that \<open>Infinity\<close> and
  \<open>-Infinity\<close> are written \<open>null\<close>. \<open>None\<close> marks the values \<open>JSON.parse\<close> never yields.
  \<open>plain_json v\<close>: \<open>v\<close> is such a value and holds no \<open>Infinity\<close>.
\<close>

fun json_wire :: "jsval \<Rightarrow> jsval option"
  and json_wire_props :: "(string \<times> jsval) list \<Rightarrow> (string \<times> jsval) list option"
  and json_wire_elems :: "jsval list \<Rightarrow> jsval list option" where
  "json_wire JNull = Some JNull"
| "json_wire (JBool b) = Some (JBool b)"
| "json_wire (JNum n) = Some (JNum n)"
| "json_wire (JInf positive) = Some JNull"
| "json_wire (JStr s) = Some (JStr s)"
| "json_wire (JObj fs) = map_option JObj (json_wire_props fs)"
| "json_wire (JArr xs) = map_option JArr (json_wire_elems xs)"
| "json_wire JUndefined = None"
| "json_wire JNaN = None"
| "json_wire (JDate t) = None"
| "json_wire (JTimestamp t) = None"
| "json_wire_props [] = Some []"
| "json_wire_props ((k, v) # fs) =
     (case json_wire v of
        None \<Rightarrow> None
      | Some v' \<Rightarrow> map_option (\<lambda>rest. (k, v') # rest) (json_wire_props fs))"
| "json_wire_elems [] = Some []"
| "json_wire_elems (x # xs) =
     (case json_wire x of
        None \<Rightarrow> None
      | Some x' \<Rightarrow> map_option (\<lambda>rest. x' # rest) (json_wire_elems xs))"

fun plain_json :: "jsval \<Rightarrow> bool"
  and plain_json_props :: "(string \<times> jsval) list \<Rightarrow> bool"
  and plain_json_elems :: "jsval list \<Rightarrow> bool" where
  "plain_json JNull = True"
| "plain_json (JBool b) = True"
| "plain_json (JNum n) = True"
| "plain_json (JStr s) = True"
| "plain_json (JObj fs) = plain_json_props fs"
| "plain_json (JArr xs) = plain_json_elems xs"
| "plain_json (JInf positive) = False"
| "plain_json JUndefined = False"
| "plain_json JNaN = False"
| "plain_json (JDate t) = False"
| "plain_json (JTimestamp t) = False"
| "plain_json_props [] = True"
| "plain_json_props ((k, v) # fs) = (plain_json v \<and> plain_json_props fs)"
| "plain_json_elems [] = True"
| "plain_json_elems (x # xs) = (plain_json x \<and> plain_json_elems xs)"

section \<open>A sample world\<close>

text \<open>
  The scenario of the specification: the token \<open>tok-sam\<close> belongs to the user \<open>sam\<close>, whose
  document holds a profile with one more field than the whitelist, a timetable and no
  GPA; the user \<open>ghost\<close> has no document; for every other identifier the store is
  unreachable. The completion client answers every request.
\<close>

definition sam_doc :: jsval where
  "sam_doc = JObj [(''nickname'', JStr ''Sam''), (''course'', JStr ''CS''),
                   (''current_semester'', JNum 2), (''total_semesters'', JNum 8),
                   (''email'', JStr ''sam@example.org''),
                   (''timetable'', JObj [(''monday'', JStr ''Algebra'')])]"

definition sam_chats :: "jsval list" where
  "sam_chats =
     [JObj [(''message'', JStr ''Thanks''), (''isUser'', JBool True), (''timestamp'', JTimestamp 2000)],
      JObj [(''message'', JStr ''Hello Sam''), (''isUser'', JBool False), (''timestamp'', JTimestamp 1000)]]"

definition outage :: js_error where
  "outage = JsError ''UNAVAILABLE''"

definition sample_completion :: jsval where
  "sample_completion =
     JObj [(''choices'', JArr [JObj [(''message'', JObj [(''content'', JStr ''GPA data is unavailable.'')])]])]"

definition sample_env :: env where
  "sample_env =
     \<lparr>doc_get = (\<lambda>a u.
          case u of
            JStr s \<Rightarrow> if s = ''sam'' then Inr \<lparr>snap_exists = True, snap_data = sam_doc\<rparr>
                      else if s = ''ghost'' then Inr \<lparr>snap_exists = False, snap_data = JUndefined\<rparr>
                      else Inl outage
          | _ \<Rightarrow> Inl outage),
      chat_get = (\<lambda>u q.
          case u of
            JStr s \<Rightarrow> if s = ''sam'' then Inr sam_chats
                      else if s = ''ghost'' then Inr []
                      else Inl outage
          | _ \<Rightarrow> Inl outage),
      verifyIdToken = (\<lambda>t.
          case t of
            JStr s \<Rightarrow> if s = ''tok-sam'' then Inr [(''uid'', JStr ''sam'')]
                      else Inl (JsError ''Decoding Firebase ID token failed'')
          | _ \<Rightarrow> Inl (JsError ''Decoding Firebase ID token failed'')),
      completions_create = (\<lambda>r. Inr sample_completion),
      new_Date = (\<lambda>site. 5000),
      toLocaleString = (\<lambda>t locale zone. ''<time in '' @ zone @ ''>''),
      toISOString = (\<lambda>t. ''<ISO time>''),
      JSON_stringify = (\<lambda>v. ''<JSON>'')\<rparr>"

text \<open>The same world with a completion client that answers every request with \<open>c\<close>.\<close>

definition answering_env :: "jsval \<Rightarrow> env" where
  "answering_env c = sample_env\<lparr>completions_create := (\<lambda>r. Inr c)\<rparr>"

text \<open>The same world with a completion client that is out of service.\<close>

definition rate_limited_env :: env where
  "rate_limited_env = sample_env\<lparr>completions_create := (\<lambda>r. Inl (JsError ''429 Too Many Requests''))\<rparr>"

text \<open>The same world where every stored profile holds a nickname and nothing else.\<close>

definition sparse_env :: env where
  "sparse_env =
     sample_env\<lparr>doc_get := (\<lambda>a u.
       Inr \<lparr>snap_exists = True, snap_data = JObj [(''nickname'', JStr ''Sam'')]\<rparr>)\<rparr>"

text \<open>
  The same world with one more user, \<open>kim\<close>. Of the two chat messages the store returns
  for \<open>kim\<close>, the first carries, as its \<open>timestamp\<close>, a map with a \<open>toDate\<close> entry; the
  second is sound.
\<close>

definition odd_chat :: jsval where
  "odd_chat = JObj [(''message'', JStr ''Hi''), (''isUser'', JBool True),
                    (''timestamp'', JObj [(''toDate'', JStr ''2024-01-01'')])]"

definition kim_chats :: "jsval list" where
  "kim_chats =
     [odd_chat,
      JObj [(''message'', JStr ''Bye''), (''isUser'', JBool True), (''timestamp'', JTimestamp 3000)]]"

definition odd_chat_env :: env where
  "odd_chat_env =
     sample_env\<lparr>chat_get := (\<lambda>u q.
       case u of
         JStr s \<Rightarrow> if s = ''kim'' then Inr kim_chats else chat_get sample_env u q
       | _ \<Rightarrow> chat_get sample_env u q)\<rparr>"

section \<open>Laws of the effect combinators\<close>

lemma bind_io_Inr [simp]: "bind_io (t, Inr x) f = (t @ fst (f x), snd (f x))"
  by (simp add: bind_io_def split: prod.splits)

lemma bind_io_Inl [simp]: "bind_io (t, Inl e) f = (t, Inl e)"
  by (simp add: bind_io_def)

lemma try_catch_Inr [simp]: "try_catch (t, Inr x) h = (t, Inr x)"
  by (simp add: try_catch_def)

lemma try_catch_Inl [simp]: "try_catch (t, Inl e) h = (t @ fst (h e), snd (h e))"
  by (simp add: try_catch_def split: prod.splits)

lemma bind_res_simps [simp]:
  "bind_res (Inl e) f = Inl e" "bind_res (Inr x) f = f x"
  by (simp_all add: bind_res_def)

lemmas io_defs = ret_def emit_def lift_def respond_def user_doc_get_def doc_def

lemma io_eta: "snd m = Inr v \<Longrightarrow> m = (fst m, Inr v)"
  by (cases m) simp

lemma responses_append [simp]: "responses (xs @ ys) = responses xs @ responses ys"
  by (induction xs rule: responses.induct) simp_all

lemma store_reads_append [simp]: "store_reads (xs @ ys) = store_reads xs @ store_reads ys"
  by (induction xs rule: store_reads.induct) simp_all

lemma completion_calls_append [simp]:
  "completion_calls (xs @ ys) = completion_calls xs @ completion_calls ys"
  by (induction xs rule: completion_calls.induct) simp_all

section \<open>The record accessors\<close>

lemma falsy_invalid_doc_id: "\<not> truthy uid \<Longrightarrow> \<not> valid_doc_id uid"
  by (cases uid) simp_all

text \<open>Each accessor, with its \<open>try\<close> and \<open>catch\<close> resolved into the cases of the store's answer.\<close>

lemma getUserData_cases:
  "getUserData var w uid =
     (if var = Part000 \<and> \<not> truthy uid then ([], Inr JNull)
      else if \<not> valid_doc_id uid then ([ConsoleError], Inr JNull)
      else case doc_get w GetUserData uid of
             Inl e \<Rightarrow> ([StoreGet GetUserData uid, ConsoleError], Inr JNull)
           | Inr snap \<Rightarrow> ([StoreGet GetUserData uid],
                          Inr (if snap_exists snap then snap_data snap else JNull)))"
  by (simp add: getUserData_def io_defs split: sum.splits)

lemma getTimetable_cases:
  "getTimetable w uid =
     (if \<not> valid_doc_id uid then ([ConsoleError], Inr (JObj []))
      else case doc_get w GetTimetable uid of
        Inl e \<Rightarrow> ([StoreGet GetTimetable uid, ConsoleError], Inr (JObj []))
      | Inr snap \<Rightarrow>
          if snap_exists snap
          then (case get_prop (snap_data snap) ''timetable'' of
                  Inl e \<Rightarrow> ([StoreGet GetTimetable uid, ConsoleError], Inr (JObj []))
                | Inr t \<Rightarrow> ([StoreGet GetTimetable uid], Inr (if truthy t then t else JObj [])))
          else ([StoreGet GetTimetable uid], Inr (JObj [])))"
  by (simp add: getTimetable_def io_defs split: sum.splits)

lemma getChatHistory_cases:
  "getChatHistory w uid =
     (if \<not> valid_doc_id uid then ([ConsoleError], Inr (JArr []))
      else case chat_get w uid chat_history_query of
        Inl e \<Rightarrow> ([StoreQuery uid chat_history_query, ConsoleError], Inr (JArr []))
      | Inr docs \<Rightarrow>
          (case map_docs w 0 docs of
             Inl e \<Rightarrow> ([StoreQuery uid chat_history_query, ConsoleError], Inr (JArr []))
           | Inr es \<Rightarrow> ([StoreQuery uid chat_history_query], Inr (JArr es))))"
  by (simp add: getChatHistory_def io_defs split: sum.splits)

lemma getExams_cases:
  "getExams w uid =
     (if \<not> valid_doc_id uid then ([ConsoleError], Inr (JArr []))
      else case doc_get w GetExams uid of
        Inl e \<Rightarrow> ([StoreGet GetExams uid, ConsoleError], Inr (JArr []))
      | Inr snap \<Rightarrow>
          if snap_exists snap
          then (case get_prop (snap_data snap) ''exams'' of
                  Inl e \<Rightarrow> ([StoreGet GetExams uid, ConsoleError], Inr (JArr []))
                | Inr t \<Rightarrow> ([StoreGet GetExams uid], Inr (if truthy t then t else JArr [])))
          else ([StoreGet GetExams uid], Inr (JArr [])))"
  by (simp add: getExams_def io_defs split: sum.splits)

lemma getGPA_cases:
  "getGPA w uid =
     (if \<not> valid_doc_id uid then ([ConsoleError], Inr (JObj []))
      else case doc_get w GetGPA uid of
        Inl e \<Rightarrow> ([StoreGet GetGPA uid, ConsoleError], Inr (JObj []))
      | Inr snap \<Rightarrow>
          if snap_exists snap
          then (case get_prop (snap_data snap) ''gpa_data'' of
                  Inl e \<Rightarrow> ([StoreGet GetGPA uid, ConsoleError], Inr (JObj []))
                | Inr t \<Rightarrow> ([StoreGet GetGPA uid], Inr (if truthy t then t else JObj [])))
          else ([StoreGet GetGPA uid], Inr (JObj [])))"
  by (simp add: getGPA_def io_defs split: sum.splits)

lemma getCourseUnits_cases:
  "getCourseUnits w uid =
     (if \<not> valid_doc_id uid then ([ConsoleError], Inr (JObj []))
      else case doc_get w GetCourseUnits uid of
        Inl e \<Rightarrow> ([StoreGet GetCourseUnits uid, ConsoleError], Inr (JObj []))
      | Inr snap \<Rightarrow>
          if snap_exists snap
          then (case get_prop (snap_data snap) ''units'' of
                  Inl e \<Rightarrow> ([StoreGet GetCourseUnits uid, ConsoleError], Inr (JObj []))
                | Inr t \<Rightarrow> ([StoreGet GetCourseUnits uid], Inr (if truthy t then t else JObj [])))
          else ([StoreGet GetCourseUnits uid], Inr (JObj [])))"
  by (simp add: getCourseUnits_def io_defs split: sum.splits)

lemma getUserData_Inr: "\<exists>v. snd (getUserData var w uid) = Inr v"
  by (simp add: getUserData_cases split: sum.splits)

lemma getTimetable_Inr: "\<exists>v. snd (getTimetable w uid) = Inr v"
  by (simp add: getTimetable_cases split: sum.splits)

lemma getExams_Inr: "\<exists>v. snd (getExams w uid) = Inr v"
  by (simp add: getExams_cases split: sum.splits)

lemma getGPA_Inr: "\<exists>v. snd (getGPA w uid) = Inr v"
  by (simp add: getGPA_cases split: sum.splits)

lemma getCourseUnits_Inr: "\<exists>v. snd (getCourseUnits w uid) = Inr v"
  by (simp add: getCourseUnits_cases split: sum.splits)

lemma getChatHistory_Inr: "\<exists>v. snd (getChatHistory w uid) = Inr v"
  by (simp add: getChatHistory_cases split: sum.splits)

lemma getUserData_quiet:
  "responses (fst (getUserData var w uid)) = [] \<and> completion_calls (fst (getUserData var w uid)) = []
   \<and> StoreGet GetTimetable u \<notin> set (fst (getUserData var w uid))"
  by (simp add: getUserData_cases split: sum.splits)

lemma getTimetable_quiet:
  "responses (fst (getTimetable w uid)) = [] \<and> completion_calls (fst (getTimetable w uid)) = []"
  by (simp add: getTimetable_cases split: sum.splits)

lemma getExams_quiet:
  "responses (fst (getExams w uid)) = [] \<and> completion_calls (fst (getExams w uid)) = []
   \<and> StoreGet GetTimetable u \<notin> set (fst (getExams w uid))"
  by (simp add: getExams_cases split: sum.splits)

lemma getGPA_quiet:
  "responses (fst (getGPA w uid)) = [] \<and> completion_calls (fst (getGPA w uid)) = []
   \<and> StoreGet GetTimetable u \<notin> set (fst (getGPA w uid))"
  by (simp add: getGPA_cases split: sum.splits)

lemma getCourseUnits_quiet:
  "responses (fst (getCourseUnits w uid)) = [] \<and> completion_calls (fst (getCourseUnits w uid)) = []
   \<and> StoreGet GetTimetable u \<notin> set (fst (getCourseUnits w uid))"
  by (simp add: getCourseUnits_cases split: sum.splits)

lemma getChatHistory_quiet:
  "responses (fst (getChatHistory w uid)) = [] \<and> completion_calls (fst (getChatHistory w uid)) = []
   \<and> StoreGet GetTimetable u \<notin> set (fst (getChatHistory w uid))"
  by (simp add: getChatHistory_cases split: sum.splits)

text \<open>
  C1. Whatever the Record Store does on a fetch (it returns an existing document, it
  reports that no document exists, or the fetch throws), none of the six accessors
  throws to its caller: each returns a value. When the fetch throws, and when no
  document exists (for the chat history: when the query returns no document), the value
  is the default of the category: \<open>null\<close> for the profile, \<open>{}\<close> for the timetable, \<open>[]\<close> for
  the exams, \<open>{}\<close> for the GPA data, \<open>{}\<close> for the course units, \<open>[]\<close> for the chat history.
\<close>

theorem accessors_default_on_failure:
  "snd (getUserData var w uid) \<noteq> Inl err
   \<and> snd (getTimetable w uid) \<noteq> Inl err
   \<and> snd (getExams w uid) \<noteq> Inl err
   \<and> snd (getGPA w uid) \<noteq> Inl err
   \<and> snd (getCourseUnits w uid) \<noteq> Inl err
   \<and> snd (getChatHistory w uid) \<noteq> Inl err
   \<and> (doc_get w GetUserData uid = Inl e \<longrightarrow> snd (getUserData var w uid) = Inr JNull)
   \<and> (doc_get w GetTimetable uid = Inl e \<longrightarrow> snd (getTimetable w uid) = Inr (JObj []))
   \<and> (doc_get w GetExams uid = Inl e \<longrightarrow> snd (getExams w uid) = Inr (JArr []))
   \<and> (doc_get w GetGPA uid = Inl e \<longrightarrow> snd (getGPA w uid) = Inr (JObj []))
   \<and> (doc_get w GetCourseUnits uid = Inl e \<longrightarrow> snd (getCourseUnits w uid) = Inr (JObj []))
   \<and> (chat_get w uid chat_history_query = Inl e \<longrightarrow> snd (getChatHistory w uid) = Inr (JArr []))
   \<and> (doc_get w GetUserData uid' = Inr snap \<and> \<not> snap_exists snap
        \<longrightarrow> snd (getUserData var w uid') = Inr JNull)
   \<and> (doc_get w GetTimetable uid' = Inr snap \<and> \<not> snap_exists snap
        \<longrightarrow> snd (getTimetable w uid') = Inr (JObj []))
   \<and> (doc_get w GetExams uid' = Inr snap \<and> \<not> snap_exists snap
        \<longrightarrow> snd (getExams w uid') = Inr (JArr []))
   \<and> (doc_get w GetGPA uid' = Inr snap \<and> \<not> snap_exists snap
        \<longrightarrow> snd (getGPA w uid') = Inr (JObj []))
   \<and> (doc_get w GetCourseUnits uid' = Inr snap \<and> \<not> snap_exists snap
        \<longrightarrow> snd (getCourseUnits w uid') = Inr (JObj []))
   \<and> (chat_get w uid' chat_history_query = Inr [] \<longrightarrow> snd (getChatHistory w uid') = Inr (JArr []))"
proof -
  have raise: "snd (getUserData var w uid) \<noteq> Inl err" "snd (getTimetable w uid) \<noteq> Inl err"
    "snd (getExams w uid) \<noteq> Inl err" "snd (getGPA w uid) \<noteq> Inl err"
    "snd (getCourseUnits w uid) \<noteq> Inl err" "snd (getChatHistory w uid) \<noteq> Inl err"
    using getUserData_Inr [of var w uid] getTimetable_Inr [of w uid] getExams_Inr [of w uid]
      getGPA_Inr [of w uid] getCourseUnits_Inr [of w uid] getChatHistory_Inr [of w uid]
    by auto
  have thrown: "doc_get w GetUserData uid = Inl e \<longrightarrow> snd (getUserData var w uid) = Inr JNull"
    "doc_get w GetTimetable uid = Inl e \<longrightarrow> snd (getTimetable w uid) = Inr (JObj [])"
    "doc_get w GetExams uid = Inl e \<longrightarrow> snd (getExams w uid) = Inr (JArr [])"
    "doc_get w GetGPA uid = Inl e \<longrightarrow> snd (getGPA w uid) = Inr (JObj [])"
    "doc_get w GetCourseUnits uid = Inl e \<longrightarrow> snd (getCourseUnits w uid) = Inr (JObj [])"
    "chat_get w uid chat_history_query = Inl e \<longrightarrow> snd (getChatHistory w uid) = Inr (JArr [])"
    by (simp_all add: getUserData_cases getTimetable_cases getExams_cases getGPA_cases
        getCourseUnits_cases getChatHistory_cases)
  have absent: "doc_get w GetUserData uid' = Inr snap \<and> \<not> snap_exists snap
        \<longrightarrow> snd (getUserData var w uid') = Inr JNull"
    "doc_get w GetTimetable uid' = Inr snap \<and> \<not> snap_exists snap
        \<longrightarrow> snd (getTimetable w uid') = Inr (JObj [])"
    "doc_get w GetExams uid' = Inr snap \<and> \<not> snap_exists snap
        \<longrightarrow> snd (getExams w uid') = Inr (JArr [])"
    "doc_get w GetGPA uid' = Inr snap \<and> \<not> snap_exists snap
        \<longrightarrow> snd (getGPA w uid') = Inr (JObj [])"
    "doc_get w GetCourseUnits uid' = Inr snap \<and> \<not> snap_exists snap
        \<longrightarrow> snd (getCourseUnits w uid') = Inr (JObj [])"
    "chat_get w uid' chat_history_query = Inr [] \<longrightarrow> snd (getChatHistory w uid') = Inr (JArr [])"
    by (simp_all add: getUserData_cases getTimetable_cases getExams_cases getGPA_cases
        getCourseUnits_cases getChatHistory_cases)
  from raise thrown absent show ?thesis by blast
qed

theorem accessors_default_on_failure_witness:
  "doc_get sample_env GetExams (JStr ''nobody'') = Inl outage
   \<and> chat_get sample_env (JStr ''nobody'') chat_history_query = Inl outage
   \<and> doc_get sample_env GetGPA (JStr ''ghost'') = Inr \<lparr>snap_exists = False, snap_data = JUndefined\<rparr>
   \<and> snd (getUserData ServerJs sample_env (JStr ''nobody'')) = Inr JNull
   \<and> snd (getTimetable sample_env (JStr ''nobody'')) = Inr (JObj [])
   \<and> snd (getExams sample_env (JStr ''nobody'')) = Inr (JArr [])
   \<and> snd (getGPA sample_env (JStr ''nobody'')) = Inr (JObj [])
   \<and> snd (getCourseUnits sample_env (JStr ''nobody'')) = Inr (JObj [])
   \<and> snd (getChatHistory sample_env (JStr ''nobody'')) = Inr (JArr [])
   \<and> snd (getUserData ServerJs sample_env (JStr ''ghost'')) = Inr JNull
   \<and> snd (getGPA sample_env (JStr ''ghost'')) = Inr (JObj [])
   \<and> snd (getChatHistory sample_env (JStr ''ghost'')) = Inr (JArr [])"
  using accessors_default_on_failure [where var = ServerJs and w = sample_env
      and uid = "JStr ''nobody''" and e = outage and uid' = "JStr ''ghost''"
      and snap = "\<lparr>snap_exists = False, snap_data = JUndefined\<rparr>"]
  by (simp add: sample_env_def)

text \<open>
  C7. \<open>getUserData\<close>, in both variants: when the store holds a document under the (valid)
  identifier, the whole document is returned; when it holds none, \<open>null\<close> is returned;
  when the identifier is falsy, \<open>null\<close> is returned and no read reaches the Record Store.
  In part_000 the guard \<open>if (!userId) return null\<close> answers before anything happens; in
  server.js the Firestore client refuses the falsy path in \<open>.doc()\<close>, before \<open>get()\<close>, and
  the \<open>catch\<close> logs the refusal and answers \<open>null\<close>. The same holds for every identifier
  that is not a non-empty string; and a throwing fetch gives \<open>null\<close> too.
\<close>

theorem getUserData_document_or_null:
  "(valid_doc_id uid \<and> doc_get w GetUserData uid = Inr snap \<and> snap_exists snap
      \<longrightarrow> getUserData var w uid = ([StoreGet GetUserData uid], Inr (snap_data snap)))
   \<and> (doc_get w GetUserData ua = Inr snap' \<and> \<not> snap_exists snap'
      \<longrightarrow> snd (getUserData var w ua) = Inr JNull)
   \<and> (doc_get w GetUserData ut = Inl e \<longrightarrow> snd (getUserData var w ut) = Inr JNull)
   \<and> (\<not> truthy uf
      \<longrightarrow> snd (getUserData var w uf) = Inr JNull
          \<and> store_reads (fst (getUserData var w uf)) = []
          \<and> getUserData Part000 w uf = ([], Inr JNull)
          \<and> getUserData ServerJs w uf = ([ConsoleError], Inr JNull))
   \<and> (\<not> valid_doc_id ui
      \<longrightarrow> snd (getUserData var w ui) = Inr JNull
          \<and> store_reads (fst (getUserData var w ui)) = [])"
proof -
  have a: "getUserData var w uid = ([StoreGet GetUserData uid], Inr (snap_data snap))"
    if "valid_doc_id uid" "doc_get w GetUserData uid = Inr snap" "snap_exists snap"
  proof -
    from that(1) have "truthy uid" using falsy_invalid_doc_id by blast
    with that show ?thesis by (simp add: getUserData_cases)
  qed
  have b: "snd (getUserData var w ua) = Inr JNull"
    if "doc_get w GetUserData ua = Inr snap'" "\<not> snap_exists snap'"
    using that by (simp add: getUserData_cases)
  have c: "snd (getUserData var w ut) = Inr JNull" if "doc_get w GetUserData ut = Inl e"
    using that by (simp add: getUserData_cases)
  have d: "snd (getUserData var w ui) = Inr JNull \<and> store_reads (fst (getUserData var w ui)) = []"
    if "\<not> valid_doc_id ui" for ui
    using that by (simp add: getUserData_cases)
  have f: "getUserData Part000 w uf = ([], Inr JNull) \<and> getUserData ServerJs w uf = ([ConsoleError], Inr JNull)"
    if "\<not> truthy uf"
    using that falsy_invalid_doc_id [OF that] by (simp add: getUserData_cases)
  from a b c d f falsy_invalid_doc_id show ?thesis by blast
qed

theorem getUserData_document_or_null_witness:
  "valid_doc_id (JStr ''sam'')
   \<and> doc_get sample_env GetUserData (JStr ''sam'') = Inr \<lparr>snap_exists = True, snap_data = sam_doc\<rparr>
   \<and> getUserData ServerJs sample_env (JStr ''sam'') = ([StoreGet GetUserData (JStr ''sam'')], Inr sam_doc)
   \<and> doc_get sample_env GetUserData (JStr ''ghost'') =
       Inr \<lparr>snap_exists = False, snap_data = JUndefined\<rparr>
   \<and> snd (getUserData ServerJs sample_env (JStr ''ghost'')) = Inr JNull
   \<and> doc_get sample_env GetUserData (JStr ''nobody'') = Inl outage
   \<and> snd (getUserData ServerJs sample_env (JStr ''nobody'')) = Inr JNull
   \<and> \<not> truthy (JStr '''')
   \<and> getUserData Part000 sample_env (JStr '''') = ([], Inr JNull)
   \<and> getUserData ServerJs sample_env (JStr '''') = ([ConsoleError], Inr JNull)
   \<and> \<not> valid_doc_id (JNum 7)
   \<and> snd (getUserData ServerJs sample_env (JNum 7)) = Inr JNull
   \<and> store_reads (fst (getUserData ServerJs sample_env (JNum 7))) = []"
  using getUserData_document_or_null [where w = sample_env and uid = "JStr ''sam''"
      and var = ServerJs and snap = "\<lparr>snap_exists = True, snap_data = sam_doc\<rparr>"
      and ua = "JStr ''ghost''" and snap' = "\<lparr>snap_exists = False, snap_data = JUndefined\<rparr>"
      and ut = "JStr ''nobody''" and e = outage and uf = "JStr ''''" and ui = "JNum 7"]
  by (simp add: sample_env_def)

subsection \<open>Chat history\<close>

lemma get_prop_data_prop: "\<not> nullish d \<Longrightarrow> get_prop d k = Inr (data_prop d k)"
  by (cases d) (simp_all add: data_prop_def field_def)

lemma get_prop_nullish: "nullish d \<Longrightarrow> \<exists>e. get_prop d k = Inl e"
  by (cases d) simp_all

lemma opt_toDate_ok:
  "\<not> uncallable_toDate ts \<Longrightarrow>
   opt_toDate ts = Inr (case ts of JTimestamp t \<Rightarrow> JDate t | _ \<Rightarrow> JUndefined)"
  by (cases ts) (auto simp: uncallable_toDate_def field_def split: option.splits)

lemma opt_toDate_throws: "uncallable_toDate ts \<Longrightarrow> \<exists>e. opt_toDate ts = Inl e"
  by (cases ts) (auto simp: uncallable_toDate_def field_def split: option.splits)

lemma chat_entry_ok:
  assumes "\<not> nullish d" and "\<not> uncallable_toDate (data_prop d ''timestamp'')"
  shows "chat_entry w i d = Inr (entry_of w i d)"
proof -
  have "opt_toDate (data_prop d ''timestamp'') =
      Inr (case data_prop d ''timestamp'' of JTimestamp t \<Rightarrow> JDate t | _ \<Rightarrow> JUndefined)"
    using assms(2) by (rule opt_toDate_ok)
  then show ?thesis
    by (simp add: chat_entry_def entry_of_def get_prop_data_prop [OF assms(1)] split: jsval.splits)
qed

lemma chat_entry_throws:
  assumes "nullish d \<or> uncallable_toDate (data_prop d ''timestamp'')"
  shows "\<exists>e. chat_entry w i d = Inl e"
proof (cases "nullish d")
  case True
  then obtain e where "get_prop d ''message'' = Inl e" using get_prop_nullish by blast
  then show ?thesis by (simp add: chat_entry_def)
next
  case False
  with assms obtain e where "opt_toDate (data_prop d ''timestamp'') = Inl e"
    using opt_toDate_throws by blast
  with False show ?thesis by (simp add: chat_entry_def get_prop_data_prop)
qed

lemma map_docs_ok:
  "\<forall>d\<in>set ds. \<not> nullish d \<and> \<not> uncallable_toDate (data_prop d ''timestamp'') \<Longrightarrow>
   map_docs w i ds = Inr (map (\<lambda>(j, d). entry_of w j d) (enumerate i ds))"
  by (induction ds arbitrary: i) (simp_all add: chat_entry_ok)

lemma map_docs_throws:
  "\<exists>d\<in>set ds. nullish d \<or> uncallable_toDate (data_prop d ''timestamp'') \<Longrightarrow>
   \<exists>e. map_docs w i ds = Inl e"
proof (induction ds arbitrary: i)
  case Nil
  then show ?case by simp
next
  case (Cons d ds)
  show ?case
  proof (cases "nullish d \<or> uncallable_toDate (data_prop d ''timestamp'')")
    case True
    then obtain e where "chat_entry w i d = Inl e" using chat_entry_throws by blast
    then show ?thesis by simp
  next
    case False
    then have ok: "chat_entry w i d = Inr (entry_of w i d)" by (simp add: chat_entry_ok)
    from False Cons.prems
    have "\<exists>d\<in>set ds. nullish d \<or> uncallable_toDate (data_prop d ''timestamp'')" by auto
    then obtain e where "map_docs w (Suc i) ds = Inl e" using Cons.IH by blast
    with ok show ?thesis by simp
  qed
qed

lemma getChatHistory_entries:
  assumes "valid_doc_id uid" and "chat_get w uid chat_history_query = Inr ds"
    and "\<forall>d\<in>set ds. \<not> nullish d \<and> \<not> uncallable_toDate (data_prop d ''timestamp'')"
  shows "getChatHistory w uid =
           ([StoreQuery uid chat_history_query],
            Inr (JArr (map (\<lambda>(i, d). entry_of w i d) (enumerate 0 ds))))"
  using assms by (simp add: getChatHistory_cases map_docs_ok)

lemma getChatHistory_uncallable:
  assumes "valid_doc_id uid" and "chat_get w uid chat_history_query = Inr ds"
    and "\<exists>d\<in>set ds. nullish d \<or> uncallable_toDate (data_prop d ''timestamp'')"
  shows "getChatHistory w uid =
           ([StoreQuery uid chat_history_query, ConsoleError], Inr (JArr []))"
proof -
  from assms(3) obtain e where "map_docs w 0 ds = Inl e" using map_docs_throws by blast
  with assms(1,2) show ?thesis by (simp add: getChatHistory_cases)
qed

text \<open>
  An entry stamped by the fallback takes the current time wherever it stands: with the
  clock at 5000, a store answer of a message of time 2000 followed by a message whose
  \<open>timestamp\<close> is \<open>null\<close> gives the stamps 2000 and 5000, in that order.
\<close>

lemma fallback_stamp_out_of_order:
  "getChatHistory
     (sample_env\<lparr>chat_get := (\<lambda>u q.
        Inr [JObj [(''message'', JStr ''new''), (''isUser'', JBool True), (''timestamp'', JTimestamp 2000)],
             JObj [(''message'', JStr ''old''), (''isUser'', JBool True), (''timestamp'', JNull)]])\<rparr>)
     (JStr ''sam'') =
   ([StoreQuery (JStr ''sam'') chat_history_query],
    Inr (JArr [JObj [(''message'', JStr ''new''), (''isUser'', JBool True), (''timestamp'', JDate 2000)],
               JObj [(''message'', JStr ''old''), (''isUser'', JBool True), (''timestamp'', JDate 5000)]]))"
  by (simp add: getChatHistory_cases chat_entry_def sample_env_def)

text \<open>
  C5. The accessor at an input where it does not do what the property says. The store
  answers the query for \<open>kim\<close> with two documents, within the limit; the \<open>timestamp\<close> of the
  first is the map \<open>{toDate: "2024-01-01"}\<close>, which cannot be converted to a time. The
  property asks for two entries, the first stamped with the current time. The optional
  call \<open>?.toDate?.()\<close> skips only a nullish \<open>toDate\<close>: here it throws a TypeError out of the
  \<open>map\<close> callback, the \<open>catch\<close> logs it, and the accessor returns no entry at all, losing
  the sound message as well.
\<close>

theorem getChatHistory_uncallable_toDate:
  "chat_get odd_chat_env (JStr ''kim'') chat_history_query =
     Inr [JObj [(''message'', JStr ''Hi''), (''isUser'', JBool True),
                (''timestamp'', JObj [(''toDate'', JStr ''2024-01-01'')])],
          JObj [(''message'', JStr ''Bye''), (''isUser'', JBool True), (''timestamp'', JTimestamp 3000)]]
   \<and> opt_toDate (JObj [(''toDate'', JStr ''2024-01-01'')]) =
       Inl (JsError ''d.data(...).timestamp?.toDate is not a function'')
   \<and> getChatHistory odd_chat_env (JStr ''kim'') =
       ([StoreQuery (JStr ''kim'') chat_history_query, ConsoleError], Inr (JArr []))"
proof -
  have k: "chat_get odd_chat_env (JStr ''kim'') chat_history_query = Inr kim_chats"
    by (simp add: odd_chat_env_def)
  have m: "map_docs odd_chat_env 0 kim_chats =
      Inl (JsError ''d.data(...).timestamp?.toDate is not a function'')"
    by (simp add: kim_chats_def odd_chat_def chat_entry_def)
  show ?thesis
    by (simp add: getChatHistory_cases k m) (simp add: kim_chats_def odd_chat_def)
qed

section \<open>Authentication\<close>

lemma auth_absent:
  "authenticateFirebase w None next =
     ([Respond 401 (JObj [(''error'', JStr ''Unauthorized. No token provided.'')])], Inr ())"
  by (simp add: authenticateFirebase_def io_defs)

lemma auth_malformed:
  "\<not> startsWith h ''Bearer '' \<Longrightarrow>
   authenticateFirebase w (Some h) next =
     ([Respond 401 (JObj [(''error'', JStr ''Unauthorized. No token provided.'')])], Inr ())"
  by (simp add: authenticateFirebase_def io_defs)

lemma auth_rejected:
  "startsWith h ''Bearer '' \<Longrightarrow> verifyIdToken w (bearer_token h) = Inl e \<Longrightarrow>
   authenticateFirebase w (Some h) next =
     ([VerifyToken (bearer_token h), ConsoleError,
       Respond 401 (JObj [(''error'', JStr ''Invalid or expired token.'')])], Inr ())"
  by (simp add: authenticateFirebase_def io_defs)

lemma auth_accepted:
  "startsWith h ''Bearer '' \<Longrightarrow> verifyIdToken w (bearer_token h) = Inr decoded \<Longrightarrow>
   authenticateFirebase w (Some h) next =
     ([VerifyToken (bearer_token h), ConsoleLog] @ fst (next (field decoded ''uid'')),
      snd (next (field decoded ''uid'')))"
  by (simp add: authenticateFirebase_def io_defs)

lemma split_acc_no_sep:
  "\<not> str_includes s sep \<Longrightarrow> split_acc sep acc s = [rev acc @ s]"
  by (induction s arbitrary: acc) auto

lemma bearer_token_plain:
  assumes "\<not> str_includes t ''Bearer ''"
  shows "bearer_token (''Bearer '' @ t) = JStr t"
  using assms
  by (simp add: bearer_token_def split_def startsWith_def at_index_def split_acc_no_sep)

text \<open>
  C4. The middleware, for any downstream handler. When the \<open>Authorization\<close> header is
  absent or does not start with \<open>Bearer \<close>, the only effect is the response 401
  \<open>{error: "Unauthorized. No token provided."}\<close>: the verifier and the handler are not
  called. When the identity verifier rejects the extracted token, the effects are the
  verification, a log line and the response 401 \<open>{error: "Invalid or expired token."}\<close>:
  the handler is not called. When the verifier accepts the token, the handler runs with
  the \<open>uid\<close> of the decoded token as the user identifier, and nothing else is sent. The
  /ask route is this middleware in front of the /ask handler.
\<close>

theorem auth_gate:
  "authenticateFirebase w None handler =
     ([Respond 401 (JObj [(''error'', JStr ''Unauthorized. No token provided.'')])], Inr ())
   \<and> (\<not> startsWith ha ''Bearer '' \<longrightarrow>
        authenticateFirebase w (Some ha) handler =
          ([Respond 401 (JObj [(''error'', JStr ''Unauthorized. No token provided.'')])], Inr ()))
   \<and> (startsWith hb ''Bearer '' \<and> verifyIdToken w (bearer_token hb) = Inl e \<longrightarrow>
        authenticateFirebase w (Some hb) handler =
          ([VerifyToken (bearer_token hb), ConsoleError,
            Respond 401 (JObj [(''error'', JStr ''Invalid or expired token.'')])], Inr ()))
   \<and> (startsWith hc ''Bearer '' \<and> verifyIdToken w (bearer_token hc) = Inr decoded \<longrightarrow>
        authenticateFirebase w (Some hc) handler =
          ([VerifyToken (bearer_token hc), ConsoleLog] @ fst (handler (field decoded ''uid'')),
           snd (handler (field decoded ''uid''))))
   \<and> ask_route var w req =
        authenticateFirebase w (req_authorization req) (ask_handler var w (req_body req))"
  by (simp add: auth_absent auth_malformed auth_rejected auth_accepted ask_route_def)

theorem auth_gate_witness:
  "\<not> startsWith ''Basic c2Ft'' ''Bearer ''
   \<and> authenticateFirebase sample_env (Some ''Basic c2Ft'') (ask_handler ServerJs sample_env (JObj [])) =
       ([Respond 401 (JObj [(''error'', JStr ''Unauthorized. No token provided.'')])], Inr ())
   \<and> verifyIdToken sample_env (bearer_token ''Bearer forged'') = Inl (JsError ''Decoding Firebase ID token failed'')
   \<and> authenticateFirebase sample_env (Some ''Bearer forged'') (ask_handler ServerJs sample_env (JObj [])) =
       ([VerifyToken (JStr ''forged''), ConsoleError,
         Respond 401 (JObj [(''error'', JStr ''Invalid or expired token.'')])], Inr ())
   \<and> verifyIdToken sample_env (bearer_token ''Bearer tok-sam'') = Inr [(''uid'', JStr ''sam'')]
   \<and> fst (ask_route ServerJs sample_env \<lparr>req_authorization = Some ''Bearer tok-sam'', req_body = JObj []\<rparr>) =
       [VerifyToken (JStr ''tok-sam''), ConsoleLog]
       @ fst (ask_handler ServerJs sample_env (JObj []) (JStr ''sam''))
   \<and> ask_route ServerJs sample_env \<lparr>req_authorization = Some ''Bearer tok-sam'', req_body = JObj []\<rparr> =
       ([VerifyToken (JStr ''tok-sam''), ConsoleLog,
         Respond 400 (JObj [(''error'', JStr ''Query is required'')])], Inr ())"
proof -
  have h: "ask_handler ServerJs sample_env (JObj []) (JStr ''sam'') =
      ([Respond 400 (JObj [(''error'', JStr ''Query is required'')])], Inr ())"
    by (simp add: ask_handler_def destructure_body_def data_prop_def field_def io_defs
        query_required_def)
  have s: "\<not> startsWith ''Basic c2Ft'' ''Bearer ''" "startsWith ''Bearer forged'' ''Bearer ''"
    "startsWith ''Bearer tok-sam'' ''Bearer ''"
    by (simp_all add: startsWith_def)
  have b: "bearer_token ''Bearer forged'' = JStr ''forged''"
    "bearer_token ''Bearer tok-sam'' = JStr ''tok-sam''"
    by (simp_all add: bearer_token_def split_def startsWith_def at_index_def)
  have v: "verifyIdToken sample_env (JStr ''forged'') = Inl (JsError ''Decoding Firebase ID token failed'')"
    "verifyIdToken sample_env (JStr ''tok-sam'') = Inr [(''uid'', JStr ''sam'')]"
    by (simp_all add: sample_env_def)
  show ?thesis
    using auth_gate [where w = sample_env and ha = "''Basic c2Ft''" and hb = "''Bearer forged''"
        and hc = "''Bearer tok-sam''" and e = "JsError ''Decoding Firebase ID token failed''"
        and decoded = "[(''uid'', JStr ''sam'')]" and handler = "ask_handler ServerJs sample_env (JObj [])"
        and var = ServerJs and req = "\<lparr>req_authorization = Some ''Bearer tok-sam'', req_body = JObj []\<rparr>"]
    by (simp add: s b v h field_def)
qed

section \<open>The /ask handler\<close>

lemma data_prop_JObj [simp]: "data_prop (JObj fs) k = field fs k"
  by (simp add: data_prop_def)

lemma truthy_data_prop_not_nullish: "truthy (data_prop body k) \<Longrightarrow> \<not> nullish body"
  by (cases body) (simp_all add: data_prop_def)

lemma destructure_body_ok:
  "\<not> nullish body \<Longrightarrow>
   destructure_body body = Inr (data_prop body ''query'', data_prop body ''timetable'')"
  by (cases body) (simp_all add: destructure_body_def)

lemma formattedProfile_Inr: "\<exists>fp. formattedProfile p = Inr (JObj fp)"
  by (cases p) (simp_all add: formattedProfile_def)

lemma ask_handler_no_body:
  "ask_handler var w JUndefined uid =
     ([ConsoleError,
       Respond 500 (failure_body
         (JsError ''Cannot destructure property 'query' of 'req.body' as it is undefined.''))],
      Inr ())"
  "ask_handler var w JNull uid =
     ([ConsoleError,
       Respond 500 (failure_body
         (JsError ''Cannot destructure property 'query' of 'req.body' as it is null.''))],
      Inr ())"
  by (simp_all add: ask_handler_def destructure_body_def io_defs failure_body_def)

lemma ask_handler_falsy_query:
  assumes "\<not> nullish body" and "\<not> truthy (data_prop body ''query'')"
  shows "ask_handler var w body uid =
           ([Respond 400 (JObj [(''error'', JStr (query_required var))])], Inr ())"
  using assms by (simp add: ask_handler_def destructure_body_ok io_defs)

lemma ask_handler_truthy_query:
  assumes q: "truthy (data_prop body ''query'')"
  shows "ask_handler var w body uid =
           (fetch_events var w body uid @ completion_events var w body uid, Inr ())"
proof -
  obtain v1 where v1: "snd (getUserData var w uid) = Inr v1" using getUserData_Inr by blast
  obtain v2 where v2: "snd (getTimetable w uid) = Inr v2" using getTimetable_Inr by blast
  obtain v3 where v3: "snd (getExams w uid) = Inr v3" using getExams_Inr by blast
  obtain v4 where v4: "snd (getGPA w uid) = Inr v4" using getGPA_Inr by blast
  obtain v5 where v5: "snd (getCourseUnits w uid) = Inr v5" using getCourseUnits_Inr by blast
  obtain v6 where v6: "snd (getChatHistory w uid) = Inr v6" using getChatHistory_Inr by blast
  obtain fp where fp: "formattedProfile v1 = Inr (JObj fp)" using formattedProfile_Inr by blast
  note e = io_eta [OF v1] io_eta [OF v2] io_eta [OF v3] io_eta [OF v4] io_eta [OF v5] io_eta [OF v6]
  have vals: "value_of (getUserData var w uid) = v1" "value_of (getTimetable w uid) = v2"
    "value_of (getExams w uid) = v3" "value_of (getGPA w uid) = v4"
    "value_of (getCourseUnits w uid) = v5" "value_of (getChatHistory w uid) = v6"
    by (simp_all add: value_of_def v1 v2 v3 v4 v5 v6)
  have d: "destructure_body body = Inr (data_prop body ''query'', data_prop body ''timetable'')"
    using q by (simp add: destructure_body_ok truthy_data_prop_not_nullish)
  show ?thesis
    unfolding ask_handler_def Let_def d
    apply (subst e(1), subst e(2), subst e(3), subst e(4), subst e(5), subst e(6))
    using q
    apply (simp add: io_defs fp vals fetch_events_def completion_events_def ask_request_def
        ask_prompt_def reduced_profile_def effective_timetable_def ok_body_def failure_body_def
        split: sum.splits)
    done
qed

lemma fetch_events_quiet:
  "responses (fetch_events var w body uid) = [] \<and> completion_calls (fetch_events var w body uid) = []"
  by (simp add: fetch_events_def getUserData_quiet getTimetable_quiet getExams_quiet getGPA_quiet
      getCourseUnits_quiet getChatHistory_quiet)

lemma fetch_events_no_timetable_read:
  "truthy (data_prop body ''timetable'') \<Longrightarrow>
   StoreGet GetTimetable u \<notin> set (fetch_events var w body uid)"
  by (simp add: fetch_events_def getUserData_quiet getExams_quiet getGPA_quiet
      getCourseUnits_quiet getChatHistory_quiet)

lemma completion_events_calls:
  "completion_calls (completion_events var w body uid) = [ask_request var w body uid]"
  by (simp add: completion_events_def split: sum.splits)

subsection \<open>The handler in the sample world\<close>

lemma sample_sam_doc:
  "doc_get sample_env a (JStr ''sam'') = Inr \<lparr>snap_exists = True, snap_data = sam_doc\<rparr>"
  by (simp add: sample_env_def)

lemma sample_sam_chats:
  "map_docs w 0 sam_chats =
     Inr [JObj [(''message'', JStr ''Thanks''), (''isUser'', JBool True), (''timestamp'', JDate 2000)],
          JObj [(''message'', JStr ''Hello Sam''), (''isUser'', JBool False), (''timestamp'', JDate 1000)]]"
  by (simp add: sam_chats_def chat_entry_def)

text \<open>
  A world \<open>w\<close> with the store of the sample world: what the fetches for \<open>sam\<close> do and
  return there.
\<close>

lemma sample_fetches:
  assumes "doc_get w = doc_get sample_env" and "chat_get w = chat_get sample_env"
  shows "fetch_events var w body (JStr ''sam'') =
     StoreGet GetUserData (JStr ''sam'')
     # (if truthy (data_prop body ''timetable'') then [] else [StoreGet GetTimetable (JStr ''sam'')])
     @ [StoreGet GetExams (JStr ''sam''), StoreGet GetGPA (JStr ''sam''),
        StoreGet GetCourseUnits (JStr ''sam''), StoreQuery (JStr ''sam'') chat_history_query]"
proof -
  have c: "chat_get w (JStr ''sam'') chat_history_query = Inr sam_chats"
    by (simp add: assms sample_env_def)
  have d: "doc_get w a (JStr ''sam'') = Inr \<lparr>snap_exists = True, snap_data = sam_doc\<rparr>" for a
    by (simp add: assms sample_sam_doc)
  show ?thesis
    by (simp add: fetch_events_def getUserData_cases getTimetable_cases getExams_cases
        getGPA_cases getCourseUnits_cases getChatHistory_cases d c sample_sam_chats
        sam_doc_def)
qed

lemma sample_ok_body:
  assumes "doc_get w = doc_get sample_env"
  shows "ok_body var w body (JStr ''sam'') a =
     JObj [(''answer'', a),
           (''profile'', JObj [(''nickname'', JStr ''Sam''), (''course'', JStr ''CS''),
                               (''current_semester'', JNum 2), (''total_semesters'', JNum 8)]),
           (''timetable'', if truthy (data_prop body ''timetable'') then data_prop body ''timetable''
                           else JObj [(''monday'', JStr ''Algebra'')]),
           (''exams'', JArr []), (''gpa'', JObj []), (''courseUnits'', JObj [])]"
proof -
  have d: "doc_get w a (JStr ''sam'') = Inr \<lparr>snap_exists = True, snap_data = sam_doc\<rparr>" for a
    by (simp add: assms sample_sam_doc)
  show ?thesis
    by (simp add: ok_body_def effective_timetable_def reduced_profile_def value_of_def
        formattedProfile_def getUserData_cases getTimetable_cases getExams_cases getGPA_cases
        getCourseUnits_cases d sam_doc_def)
qed

lemma sample_completion_events:
  "completion_events var sample_env body (JStr ''sam'') =
     [CompletionsCreate (ask_request var sample_env body (JStr ''sam'')),
      Respond 200 (ok_body var sample_env body (JStr ''sam'') (JStr ''GPA data is unavailable.''))]"
proof -
  have "completions_create sample_env r = Inr sample_completion" for r
    by (simp add: sample_env_def)
  then show ?thesis
    by (simp add: completion_events_def sample_completion_def answer_of_def field_def)
qed

lemma sample_run:
  assumes "truthy (data_prop body ''query'')"
  shows "ask_handler var sample_env body (JStr ''sam'') =
     (StoreGet GetUserData (JStr ''sam'')
      # (if truthy (data_prop body ''timetable'') then [] else [StoreGet GetTimetable (JStr ''sam'')])
      @ [StoreGet GetExams (JStr ''sam''), StoreGet GetGPA (JStr ''sam''),
         StoreGet GetCourseUnits (JStr ''sam''), StoreQuery (JStr ''sam'') chat_history_query,
         CompletionsCreate (ask_request var sample_env body (JStr ''sam'')),
         Respond 200
           (JObj [(''answer'', JStr ''GPA data is unavailable.''),
                  (''profile'', JObj [(''nickname'', JStr ''Sam''), (''course'', JStr ''CS''),
                                      (''current_semester'', JNum 2), (''total_semesters'', JNum 8)]),
                  (''timetable'', if truthy (data_prop body ''timetable'') then data_prop body ''timetable''
                                  else JObj [(''monday'', JStr ''Algebra'')]),
                  (''exams'', JArr []), (''gpa'', JObj []), (''courseUnits'', JObj [])])],
      Inr ())"
  by (simp add: ask_handler_truthy_query [OF assms] sample_fetches sample_completion_events
      sample_ok_body)

subsection \<open>Validation and failure\<close>

text \<open>
  A request that passed the middleware and whose parsed body is an object without \<open>query\<close>,
  or with the empty string there, is answered 400; nothing else happens.
\<close>

lemma parsed_body_without_query_rejected:
  assumes "req_authorization req = Some h" and "startsWith h ''Bearer ''"
    and "verifyIdToken w (bearer_token h) = Inr decoded"
    and "req_body req = JObj fs"
    and "map_of fs ''query'' = None \<or> map_of fs ''query'' = Some (JStr '''')"
  shows "ask_route var w req =
           ([VerifyToken (bearer_token h), ConsoleLog,
             Respond 400 (JObj [(''error'',
               JStr (case var of ServerJs \<Rightarrow> ''Query is required'' | Part000 \<Rightarrow> ''query is required''))])],
            Inr ())"
proof -
  from assms(5) have "\<not> truthy (data_prop (JObj fs) ''query'')"
    by (auto simp: field_def)
  then have "ask_handler var w (JObj fs) (field decoded ''uid'') =
      ([Respond 400 (JObj [(''error'', JStr (query_required var))])], Inr ())"
    by (simp add: ask_handler_falsy_query)
  with assms(1-4) show ?thesis
    by (simp add: ask_route_def auth_accepted query_required_def)
qed

text \<open>
  C3. The handler at an input where it does not do what the property says: a request
  with a valid token and no parsed body, for which Express 5 leaves \<open>req.body\<close> undefined.
  It has no \<open>query\<close> field, and the property asks for the answer 400. The destructuring
  \<open>const { query, timetable } = req.body\<close>, the first statement of the \<open>try\<close>, throws before
  the test \<open>if (!query)\<close> is reached, and the \<open>catch\<close> answers 500 "AI processing failed",
  in both variants. No fetch and no completion call is made.
\<close>

theorem missing_body_answers_500:
  "ask_handler var w JUndefined uid =
     ([ConsoleError,
       Respond 500
         (JObj [(''error'', JStr ''AI processing failed''),
                (''details'',
                 JStr ''Cannot destructure property 'query' of 'req.body' as it is undefined.'')])],
      Inr ())
   \<and> ask_route var sample_env \<lparr>req_authorization = Some ''Bearer tok-sam'', req_body = JUndefined\<rparr> =
     ([VerifyToken (JStr ''tok-sam''), ConsoleLog, ConsoleError,
       Respond 500
         (JObj [(''error'', JStr ''AI processing failed''),
                (''details'',
                 JStr ''Cannot destructure property 'query' of 'req.body' as it is undefined.'')])],
      Inr ())"
proof -
  have s: "startsWith ''Bearer tok-sam'' ''Bearer ''"
    by (simp add: startsWith_def)
  have b: "bearer_token ''Bearer tok-sam'' = JStr ''tok-sam''"
    by (simp add: bearer_token_def split_def startsWith_def at_index_def)
  have v: "verifyIdToken sample_env (bearer_token ''Bearer tok-sam'') = Inr [(''uid'', JStr ''sam'')]"
    by (simp add: b sample_env_def)
  show ?thesis
    by (simp add: ask_route_def auth_accepted [OF s v] ask_handler_no_body failure_body_def b)
qed

text \<open>
  C10. The validation of \<open>query\<close> is a truthiness test: a body whose \<open>query\<close> is any falsy
  value, such as \<open>0\<close>, \<open>false\<close> or \<open>null\<close>, and not only the empty string, is answered 400
  before any data fetch and any completion call.
\<close>

theorem falsy_query_rejected:
  assumes "map_of body ''query'' = Some q" and "\<not> truthy q"
  shows "ask_handler var w (JObj body) uid =
           ([Respond 400 (JObj [(''error'', JStr (query_required var))])], Inr ())
         \<and> store_reads (fst (ask_handler var w (JObj body) uid)) = []
         \<and> completion_calls (fst (ask_handler var w (JObj body) uid)) = []
         \<and> \<not> truthy (JNum 0) \<and> \<not> truthy (JBool False) \<and> \<not> truthy JNull"
proof -
  from assms have "\<not> truthy (data_prop (JObj body) ''query'')" by (simp add: field_def)
  then show ?thesis by (simp add: ask_handler_falsy_query)
qed

theorem falsy_query_rejected_witness:
  "ask_handler ServerJs sample_env (JObj [(''query'', JNum 0)]) (JStr ''sam'') =
     ([Respond 400 (JObj [(''error'', JStr ''Query is required'')])], Inr ())"
  using falsy_query_rejected [where var = ServerJs and w = sample_env
      and body = "[(''query'', JNum 0)]" and q = "JNum 0" and uid = "JStr ''sam''"]
  by (simp add: query_required_def)

subsection \<open>The completion call and its answer\<close>

text \<open>\<open>completion.choices[0].message.content\<close>, case by case.\<close>

lemma get_prop_nullish_name:
  "nullish v \<Longrightarrow> get_prop v k = Inl (JsError (cannot_read (nullish_name v) k))"
  by (cases v) simp_all

lemma get_first_nullish:
  "nullish v \<Longrightarrow> get_first v = Inl (JsError (cannot_read (nullish_name v) ''0''))"
  by (cases v) simp_all

lemma get_first_JArr: "(case chs of [] \<Rightarrow> JUndefined | x # xs \<Rightarrow> x) = first_elem chs"
  by (cases chs) simp_all

lemma data_prop_JArr_not_nullish: "data_prop c k = JArr chs \<Longrightarrow> \<not> nullish c"
  by (cases c) (simp_all add: data_prop_def)

lemma answer_of_nullish:
  "nullish c \<Longrightarrow> answer_of c = Inl (JsError (cannot_read (nullish_name c) ''choices''))"
  by (simp add: answer_of_def get_prop_nullish_name)

lemma answer_of_no_choices:
  "\<not> nullish c \<Longrightarrow> nullish (data_prop c ''choices'') \<Longrightarrow>
   answer_of c = Inl (JsError (cannot_read (nullish_name (data_prop c ''choices'')) ''0''))"
  by (simp add: answer_of_def get_prop_data_prop get_first_nullish)

lemma answer_of_no_first:
  "data_prop c ''choices'' = JArr chs \<Longrightarrow> nullish (first_elem chs) \<Longrightarrow>
   answer_of c = Inl (JsError (cannot_read (nullish_name (first_elem chs)) ''message''))"
  by (simp add: answer_of_def get_prop_data_prop data_prop_JArr_not_nullish get_first_JArr
      get_prop_nullish_name)

lemma answer_of_no_message:
  "data_prop c ''choices'' = JArr chs \<Longrightarrow> \<not> nullish (first_elem chs) \<Longrightarrow>
   nullish (data_prop (first_elem chs) ''message'') \<Longrightarrow>
   answer_of c =
     Inl (JsError (cannot_read (nullish_name (data_prop (first_elem chs) ''message'')) ''content''))"
  by (simp add: answer_of_def get_prop_data_prop data_prop_JArr_not_nullish get_first_JArr
      get_prop_nullish_name)

lemma answer_of_content:
  "data_prop c ''choices'' = JArr chs \<Longrightarrow> \<not> nullish (first_elem chs) \<Longrightarrow>
   \<not> nullish (data_prop (first_elem chs) ''message'') \<Longrightarrow>
   answer_of c = Inr (data_prop (data_prop (first_elem chs) ''message'') ''content'')"
  by (simp add: answer_of_def get_prop_data_prop data_prop_JArr_not_nullish get_first_JArr)

lemma ask_handler_truthy_query_obj:
  assumes "truthy (field body ''query'')"
  shows "ask_handler var w (JObj body) uid =
           (fetch_events var w (JObj body) uid @ completion_events var w (JObj body) uid, Inr ())"
  using assms ask_handler_truthy_query [of "JObj body" var w uid] by simp

lemma sample_run_obj:
  assumes "truthy (field body ''query'')"
  shows "ask_handler var sample_env (JObj body) (JStr ''sam'') =
     (StoreGet GetUserData (JStr ''sam'')
      # (if truthy (field body ''timetable'') then [] else [StoreGet GetTimetable (JStr ''sam'')])
      @ [StoreGet GetExams (JStr ''sam''), StoreGet GetGPA (JStr ''sam''),
         StoreGet GetCourseUnits (JStr ''sam''), StoreQuery (JStr ''sam'') chat_history_query,
         CompletionsCreate (ask_request var sample_env (JObj body) (JStr ''sam'')),
         Respond 200
           (JObj [(''answer'', JStr ''GPA data is unavailable.''),
                  (''profile'', JObj [(''nickname'', JStr ''Sam''), (''course'', JStr ''CS''),
                                      (''current_semester'', JNum 2), (''total_semesters'', JNum 8)]),
                  (''timetable'', if truthy (field body ''timetable'') then field body ''timetable''
                                  else JObj [(''monday'', JStr ''Algebra'')]),
                  (''exams'', JArr []), (''gpa'', JObj []), (''courseUnits'', JObj [])])],
      Inr ())"
  using assms sample_run [of "JObj body" var] by simp

lemma handler_responses:
  assumes "truthy (field body ''query'')"
  shows "responses (fst (ask_handler var w (JObj body) uid)) =
           (case completions_create w (ask_request var w (JObj body) uid) of
              Inl e \<Rightarrow> [(500, failure_body e)]
            | Inr c \<Rightarrow>
                (case answer_of c of
                   Inl e \<Rightarrow> [(500, failure_body e)]
                 | Inr a \<Rightarrow> [(200, ok_body var w (JObj body) uid a)]))"
  by (simp add: ask_handler_truthy_query_obj [OF assms] fetch_events_quiet completion_events_def
      split: sum.splits)

text \<open>
  C9 (as amended). For a request with a valid (truthy) query the Completion Client is
  called exactly once (no retry), the handler itself ends normally, and exactly one
  response is sent. It is 500 with \<open>error: "AI processing failed"\<close> and the message of the
  error as \<open>details\<close> when the Completion Client throws, and when reading
  \<open>choices[0].message.content\<close> throws: the completion is nullish, or its \<open>choices\<close> are, or
  the first choice is (an empty array has none), or the \<open>message\<close> of the first choice is.
  A completion whose first choice has a \<open>message\<close> raises no error, malformed or not: the
  response is 200 with the \<open>content\<close> of that message as the answer, \<open>undefined\<close> when the
  message has none.
\<close>

theorem completion_outcomes:
  assumes q: "truthy (field body ''query'')"
  shows "completion_calls (fst (ask_handler var w (JObj body) uid)) =
           [ask_request var w (JObj body) uid]
     \<and> snd (ask_handler var w (JObj body) uid) = Inr ()
     \<and> length (responses (fst (ask_handler var w (JObj body) uid))) = 1
     \<and> failure_body err =
         JObj [(''error'', JStr ''AI processing failed''), (''details'', JStr (message err))]
     \<and> (completions_create w (ask_request var w (JObj body) uid) = Inl e \<longrightarrow>
          responses (fst (ask_handler var w (JObj body) uid)) = [(500, failure_body e)])
     \<and> (completions_create w (ask_request var w (JObj body) uid) = Inr c \<and> nullish c \<longrightarrow>
          responses (fst (ask_handler var w (JObj body) uid)) =
            [(500, failure_body (JsError (cannot_read (nullish_name c) ''choices'')))])
     \<and> (completions_create w (ask_request var w (JObj body) uid) = Inr c \<and> \<not> nullish c
          \<and> nullish (data_prop c ''choices'') \<longrightarrow>
          responses (fst (ask_handler var w (JObj body) uid)) =
            [(500, failure_body
                     (JsError (cannot_read (nullish_name (data_prop c ''choices'')) ''0'')))])
     \<and> (completions_create w (ask_request var w (JObj body) uid) = Inr c
          \<and> data_prop c ''choices'' = JArr chs \<and> nullish (first_elem chs) \<longrightarrow>
          responses (fst (ask_handler var w (JObj body) uid)) =
            [(500, failure_body (JsError (cannot_read (nullish_name (first_elem chs)) ''message'')))])
     \<and> (completions_create w (ask_request var w (JObj body) uid) = Inr c
          \<and> data_prop c ''choices'' = JArr chs \<and> \<not> nullish (first_elem chs)
          \<and> nullish (data_prop (first_elem chs) ''message'') \<longrightarrow>
          responses (fst (ask_handler var w (JObj body) uid)) =
            [(500, failure_body
                     (JsError (cannot_read (nullish_name (data_prop (first_elem chs) ''message''))
                                 ''content'')))])
     \<and> (completions_create w (ask_request var w (JObj body) uid) = Inr c
          \<and> data_prop c ''choices'' = JArr chs \<and> \<not> nullish (first_elem chs)
          \<and> \<not> nullish (data_prop (first_elem chs) ''message'') \<longrightarrow>
          responses (fst (ask_handler var w (JObj body) uid)) =
            [(200, ok_body var w (JObj body) uid
                     (data_prop (data_prop (first_elem chs) ''message'') ''content''))])"
proof -
  note r = handler_responses [OF q, of var w uid]
  have a: "completion_calls (fst (ask_handler var w (JObj body) uid)) =
           [ask_request var w (JObj body) uid]"
    by (simp add: ask_handler_truthy_query_obj [OF q] fetch_events_quiet completion_events_calls)
  have b: "snd (ask_handler var w (JObj body) uid) = Inr ()"
    by (simp add: ask_handler_truthy_query_obj [OF q])
  have l: "length (responses (fst (ask_handler var w (JObj body) uid))) = 1"
    by (simp add: r split: sum.splits)
  have c: "failure_body err =
         JObj [(''error'', JStr ''AI processing failed''), (''details'', JStr (message err))]"
    by (simp add: failure_body_def)
  have d: "responses (fst (ask_handler var w (JObj body) uid)) = [(500, failure_body e)]"
    if "completions_create w (ask_request var w (JObj body) uid) = Inl e"
    by (simp add: r that)
  have e1: "responses (fst (ask_handler var w (JObj body) uid)) =
            [(500, failure_body (JsError (cannot_read (nullish_name c) ''choices'')))]"
    if "completions_create w (ask_request var w (JObj body) uid) = Inr c" "nullish c"
    by (simp add: r that answer_of_nullish)
  have e2: "responses (fst (ask_handler var w (JObj body) uid)) =
            [(500, failure_body
                     (JsError (cannot_read (nullish_name (data_prop c ''choices'')) ''0'')))]"
    if "completions_create w (ask_request var w (JObj body) uid) = Inr c" "\<not> nullish c"
      "nullish (data_prop c ''choices'')"
    by (simp add: r that answer_of_no_choices)
  have e3: "responses (fst (ask_handler var w (JObj body) uid)) =
            [(500, failure_body (JsError (cannot_read (nullish_name (first_elem chs)) ''message'')))]"
    if "completions_create w (ask_request var w (JObj body) uid) = Inr c"
      "data_prop c ''choices'' = JArr chs" "nullish (first_elem chs)"
    by (simp add: r that(1) answer_of_no_first [OF that(2,3)])
  have e4: "responses (fst (ask_handler var w (JObj body) uid)) =
            [(500, failure_body
                     (JsError (cannot_read (nullish_name (data_prop (first_elem chs) ''message''))
                                 ''content'')))]"
    if "completions_create w (ask_request var w (JObj body) uid) = Inr c"
      "data_prop c ''choices'' = JArr chs" "\<not> nullish (first_elem chs)"
      "nullish (data_prop (first_elem chs) ''message'')"
    by (simp add: r that(1) answer_of_no_message [OF that(2,3,4)])
  have e5: "responses (fst (ask_handler var w (JObj body) uid)) =
            [(200, ok_body var w (JObj body) uid
                     (data_prop (data_prop (first_elem chs) ''message'') ''content''))]"
    if "completions_create w (ask_request var w (JObj body) uid) = Inr c"
      "data_prop c ''choices'' = JArr chs" "\<not> nullish (first_elem chs)"
      "\<not> nullish (data_prop (first_elem chs) ''message'')"
    by (simp add: r that(1) answer_of_content [OF that(2,3,4)])
  from a b l c d e1 e2 e3 e4 e5 show ?thesis by blast
qed

theorem completion_outcomes_witness:
  "truthy (field [(''query'', JStr ''What is my GPA?'')] ''query'')
   \<and> completion_calls (fst (ask_handler ServerJs rate_limited_env
         (JObj [(''query'', JStr ''What is my GPA?'')]) (JStr ''sam''))) =
       [ask_request ServerJs rate_limited_env (JObj [(''query'', JStr ''What is my GPA?'')]) (JStr ''sam'')]
   \<and> responses (fst (ask_handler ServerJs rate_limited_env
         (JObj [(''query'', JStr ''What is my GPA?'')]) (JStr ''sam''))) =
       [(500, JObj [(''error'', JStr ''AI processing failed''),
                    (''details'', JStr ''429 Too Many Requests'')])]
   \<and> responses (fst (ask_handler ServerJs (answering_env JUndefined)
         (JObj [(''query'', JStr ''What is my GPA?'')]) (JStr ''sam''))) =
       [(500, JObj [(''error'', JStr ''AI processing failed''),
                    (''details'', JStr ''Cannot read properties of undefined (reading 'choices')'')])]
   \<and> responses (fst (ask_handler ServerJs (answering_env (JObj []))
         (JObj [(''query'', JStr ''What is my GPA?'')]) (JStr ''sam''))) =
       [(500, JObj [(''error'', JStr ''AI processing failed''),
                    (''details'', JStr ''Cannot read properties of undefined (reading '0')'')])]
   \<and> responses (fst (ask_handler ServerJs (answering_env (JObj [(''choices'', JArr [])]))
         (JObj [(''query'', JStr ''What is my GPA?'')]) (JStr ''sam''))) =
       [(500, JObj [(''error'', JStr ''AI processing failed''),
                    (''details'', JStr ''Cannot read properties of undefined (reading 'message')'')])]
   \<and> responses (fst (ask_handler ServerJs (answering_env (JObj [(''choices'', JArr [JObj []])]))
         (JObj [(''query'', JStr ''What is my GPA?'')]) (JStr ''sam''))) =
       [(500, JObj [(''error'', JStr ''AI processing failed''),
                    (''details'', JStr ''Cannot read properties of undefined (reading 'content')'')])]
   \<and> responses (fst (ask_handler ServerJs
         (answering_env (JObj [(''choices'', JArr [JObj [(''message'', JObj [(''content'', JStr ''3.4'')])]])]))
         (JObj [(''query'', JStr ''What is my GPA?'')]) (JStr ''sam''))) =
       [(200, ok_body ServerJs
                (answering_env (JObj [(''choices'', JArr [JObj [(''message'', JObj [(''content'', JStr ''3.4'')])]])]))
                (JObj [(''query'', JStr ''What is my GPA?'')]) (JStr ''sam'') (JStr ''3.4''))]"
proof -
  let ?b = "[(''query'', JStr ''What is my GPA?'')]"
  have q: "truthy (field ?b ''query'')"
    by (simp add: field_def)
  have r: "completions_create rate_limited_env x = Inl (JsError ''429 Too Many Requests'')" for x
    by (simp add: rate_limited_env_def)
  have a: "completions_create (answering_env c) x = Inr c" for c x
    by (simp add: answering_env_def)
  note t = completion_outcomes [OF q]
  have 1: "completion_calls (fst (ask_handler ServerJs rate_limited_env (JObj ?b) (JStr ''sam''))) =
       [ask_request ServerJs rate_limited_env (JObj ?b) (JStr ''sam'')]"
    using t [of ServerJs rate_limited_env "JStr ''sam''"] by blast
  have 2: "responses (fst (ask_handler ServerJs rate_limited_env (JObj ?b) (JStr ''sam''))) =
       [(500, failure_body (JsError ''429 Too Many Requests''))]"
    using t [of ServerJs rate_limited_env "JStr ''sam''" _ "JsError ''429 Too Many Requests''"] r
    by blast
  have 3: "responses (fst (ask_handler ServerJs (answering_env JUndefined) (JObj ?b) (JStr ''sam''))) =
       [(500, failure_body (JsError (cannot_read (nullish_name JUndefined) ''choices'')))]"
    using t [of ServerJs "answering_env JUndefined" "JStr ''sam''" _ _ JUndefined] a
    by simp
  have 4: "responses (fst (ask_handler ServerJs (answering_env (JObj [])) (JObj ?b) (JStr ''sam''))) =
       [(500, failure_body (JsError (cannot_read (nullish_name (data_prop (JObj []) ''choices'')) ''0'')))]"
    using t [of ServerJs "answering_env (JObj [])" "JStr ''sam''" _ _ "JObj []"] a
    by (simp add: field_def)
  have 5: "responses (fst (ask_handler ServerJs (answering_env (JObj [(''choices'', JArr [])]))
         (JObj ?b) (JStr ''sam''))) =
       [(500, failure_body (JsError (cannot_read (nullish_name (first_elem [])) ''message'')))]"
    using t [of ServerJs "answering_env (JObj [(''choices'', JArr [])])" "JStr ''sam''" _ _
        "JObj [(''choices'', JArr [])]" "[]"] a
    by (simp add: field_def)
  have 6: "responses (fst (ask_handler ServerJs (answering_env (JObj [(''choices'', JArr [JObj []])]))
         (JObj ?b) (JStr ''sam''))) =
       [(500, failure_body
                (JsError (cannot_read (nullish_name (data_prop (first_elem [JObj []]) ''message''))
                            ''content'')))]"
    using t [of ServerJs "answering_env (JObj [(''choices'', JArr [JObj []])])" "JStr ''sam''" _ _
        "JObj [(''choices'', JArr [JObj []])]" "[JObj []]"] a
    by (simp add: field_def)
  let ?c = "JObj [(''choices'', JArr [JObj [(''message'', JObj [(''content'', JStr ''3.4'')])]])]"
  have 7: "responses (fst (ask_handler ServerJs (answering_env ?c) (JObj ?b) (JStr ''sam''))) =
       [(200, ok_body ServerJs (answering_env ?c) (JObj ?b) (JStr ''sam'')
                (data_prop (data_prop (first_elem [JObj [(''message'', JObj [(''content'', JStr ''3.4'')])]])
                   ''message'') ''content''))]"
    using t [of ServerJs "answering_env ?c" "JStr ''sam''" _ _ ?c
        "[JObj [(''message'', JObj [(''content'', JStr ''3.4'')])]]"] a
    by (simp add: field_def)
  show ?thesis
    unfolding 1 2 3 4 5 6 7
    by (simp add: field_def failure_body_def cannot_read_def)
qed

theorem malformed_completion_counterexample:
  "completions_create (answering_env (JObj [(''choices'', JArr [JObj [(''message'', JObj [])]])]))
     (ask_request ServerJs (answering_env (JObj [(''choices'', JArr [JObj [(''message'', JObj [])]])]))
        (JObj [(''query'', JStr ''What is my GPA?'')]) (JStr ''sam'')) =
     Inr (JObj [(''choices'', JArr [JObj [(''message'', JObj [])]])])
   \<and> ask_handler ServerJs (answering_env (JObj [(''choices'', JArr [JObj [(''message'', JObj [])]])]))
       (JObj [(''query'', JStr ''What is my GPA?'')]) (JStr ''sam'') =
     ([StoreGet GetUserData (JStr ''sam''), StoreGet GetTimetable (JStr ''sam''),
       StoreGet GetExams (JStr ''sam''), StoreGet GetGPA (JStr ''sam''),
       StoreGet GetCourseUnits (JStr ''sam''), StoreQuery (JStr ''sam'') chat_history_query,
       CompletionsCreate
         (ask_request ServerJs (answering_env (JObj [(''choices'', JArr [JObj [(''message'', JObj [])]])]))
            (JObj [(''query'', JStr ''What is my GPA?'')]) (JStr ''sam'')),
       Respond 200
         (JObj [(''answer'', JUndefined),
                (''profile'', JObj [(''nickname'', JStr ''Sam''), (''course'', JStr ''CS''),
                                    (''current_semester'', JNum 2), (''total_semesters'', JNum 8)]),
                (''timetable'', JObj [(''monday'', JStr ''Algebra'')]),
                (''exams'', JArr []), (''gpa'', JObj []), (''courseUnits'', JObj [])])],
      Inr ())"
proof -
  let ?c = "JObj [(''choices'', JArr [JObj [(''message'', JObj [])]])]"
  let ?b = "JObj [(''query'', JStr ''What is my GPA?'')]"
  have a: "completions_create (answering_env ?c) x = Inr ?c" for x
    by (simp add: answering_env_def)
  have d: "doc_get (answering_env ?c) = doc_get sample_env"
    "chat_get (answering_env ?c) = chat_get sample_env"
    by (simp_all add: answering_env_def)
  have q: "truthy (data_prop ?b ''query'')"
    by (simp add: field_def)
  have n: "answer_of ?c = Inr JUndefined"
    by (simp add: answer_of_def field_def)
  have f: "fetch_events ServerJs (answering_env ?c) ?b (JStr ''sam'') =
      [StoreGet GetUserData (JStr ''sam''), StoreGet GetTimetable (JStr ''sam''),
       StoreGet GetExams (JStr ''sam''), StoreGet GetGPA (JStr ''sam''),
       StoreGet GetCourseUnits (JStr ''sam''), StoreQuery (JStr ''sam'') chat_history_query]"
    by (simp add: sample_fetches [OF d] field_def)
  have c: "completion_events ServerJs (answering_env ?c) ?b (JStr ''sam'') =
      [CompletionsCreate (ask_request ServerJs (answering_env ?c) ?b (JStr ''sam'')),
       Respond 200 (ok_body ServerJs (answering_env ?c) ?b (JStr ''sam'') JUndefined)]"
    by (simp add: completion_events_def a n)
  show ?thesis
    by (simp add: a ask_handler_truthy_query [OF q] f c sample_ok_body [OF d(1)] field_def)
qed

subsection \<open>The timetable override\<close>

lemma chat_entry_cong_env:
  "new_Date w' = new_Date w \<Longrightarrow> chat_entry w' i d = chat_entry w i d"
  by (simp add: chat_entry_def cong: if_cong)

lemma map_docs_cong_env:
  assumes "new_Date w' = new_Date w"
  shows "map_docs w' i ds = map_docs w i ds"
  by (induction ds arbitrary: i) (simp_all add: chat_entry_cong_env [OF assms])

lemma accessors_ignore_timetable_read:
  "getUserData var (w\<lparr>doc_get := (doc_get w)(GetTimetable := f)\<rparr>) uid = getUserData var w uid"
  "getExams (w\<lparr>doc_get := (doc_get w)(GetTimetable := f)\<rparr>) uid = getExams w uid"
  "getGPA (w\<lparr>doc_get := (doc_get w)(GetTimetable := f)\<rparr>) uid = getGPA w uid"
  "getCourseUnits (w\<lparr>doc_get := (doc_get w)(GetTimetable := f)\<rparr>) uid = getCourseUnits w uid"
  "getChatHistory (w\<lparr>doc_get := (doc_get w)(GetTimetable := f)\<rparr>) uid = getChatHistory w uid"
  by (simp_all add: getUserData_def getExams_def getGPA_def getCourseUnits_def
      getChatHistory_def user_doc_get_def
      map_docs_cong_env [of "w\<lparr>doc_get := (doc_get w)(GetTimetable := f)\<rparr>" w])

lemma systemPrompt_ignores_store:
  "systemPrompt var (w\<lparr>doc_get := g\<rparr>) p t x g' c l = systemPrompt var w p t x g' c l"
  by (simp add: systemPrompt_def date_block_def data_block_ServerJs_def data_block_Part000_def
      split: variant.splits)

lemma plain_json_wire:
  "plain_json v \<Longrightarrow> json_wire v = Some v"
  "plain_json_props fs \<Longrightarrow> json_wire_props fs = Some fs"
  "plain_json_elems xs \<Longrightarrow> json_wire_elems xs = Some xs"
  by (induction v and fs and xs rule: plain_json_plain_json_props_plain_json_elems.induct)
    simp_all

lemma getTimetable_reads:
  "valid_doc_id uid \<Longrightarrow> StoreGet GetTimetable uid \<in> set (fst (getTimetable w uid))"
  by (simp add: getTimetable_cases split: sum.splits)

lemma timetable_supplied:
  assumes q: "truthy (field body ''query'')"
    and tt: "map_of body ''timetable'' = Some tt" "truthy tt"
  shows "completion_calls (fst (ask_handler var w (JObj body) uid)) =
           [completion_request
              (systemPrompt var w (reduced_profile var w uid) tt (value_of (getExams w uid))
                 (value_of (getGPA w uid)) (value_of (getCourseUnits w uid))
                 (value_of (getChatHistory w uid)))
              (field body ''query'')]"
    and "\<forall>b. (200, b) \<in> set (responses (fst (ask_handler var w (JObj body) uid)))
                \<longrightarrow> data_prop b ''timetable'' = tt"
    and "\<forall>u. StoreGet GetTimetable u \<notin> set (fst (ask_handler var w (JObj body) uid))"
    and "ask_handler var (w\<lparr>doc_get := (doc_get w)(GetTimetable := stored)\<rparr>) (JObj body) uid =
             ask_handler var w (JObj body) uid"
proof -
  from tt have ft: "data_prop (JObj body) ''timetable'' = tt"
    "truthy (data_prop (JObj body) ''timetable'')"
    by (simp_all add: field_def)
  note h = ask_handler_truthy_query_obj [OF q]
  have eff: "effective_timetable w (JObj body) uid = tt" for w
    using ft by (simp add: effective_timetable_def)
  show "completion_calls (fst (ask_handler var w (JObj body) uid)) =
           [completion_request
              (systemPrompt var w (reduced_profile var w uid) tt (value_of (getExams w uid))
                 (value_of (getGPA w uid)) (value_of (getCourseUnits w uid))
                 (value_of (getChatHistory w uid)))
              (field body ''query'')]"
    by (simp add: h fetch_events_quiet completion_events_calls ask_request_def ask_prompt_def eff)
  show "\<forall>b. (200, b) \<in> set (responses (fst (ask_handler var w (JObj body) uid)))
                \<longrightarrow> data_prop b ''timetable'' = tt"
  proof (intro allI impI)
    fix b assume "(200, b) \<in> set (responses (fst (ask_handler var w (JObj body) uid)))"
    then have "\<exists>a. b = ok_body var w (JObj body) uid a"
      by (auto simp: h fetch_events_quiet completion_events_def split: sum.splits)
    then show "data_prop b ''timetable'' = tt"
      by (auto simp: ok_body_def data_prop_def field_def eff)
  qed
  show "\<forall>u. StoreGet GetTimetable u \<notin> set (fst (ask_handler var w (JObj body) uid))"
  proof
    fix u
    have "StoreGet GetTimetable u \<notin> set (completion_events var w (JObj body) uid)"
      by (simp add: completion_events_def split: sum.splits)
    with fetch_events_no_timetable_read [OF ft(2), of u var w uid]
    show "StoreGet GetTimetable u \<notin> set (fst (ask_handler var w (JObj body) uid))"
      by (simp add: h)
  qed
  let ?w' = "w\<lparr>doc_get := (doc_get w)(GetTimetable := stored)\<rparr>"
  note ig = accessors_ignore_timetable_read
  have fe: "fetch_events var ?w' (JObj body) uid = fetch_events var w (JObj body) uid"
    using ft by (simp add: fetch_events_def ig)
  have rq: "ask_request var ?w' (JObj body) uid = ask_request var w (JObj body) uid"
    by (simp add: ask_request_def ask_prompt_def reduced_profile_def eff ig
        systemPrompt_ignores_store)
  have ok: "ok_body var ?w' (JObj body) uid a = ok_body var w (JObj body) uid a" for a
    by (simp add: ok_body_def reduced_profile_def eff ig)
  have ce: "completion_events var ?w' (JObj body) uid = completion_events var w (JObj body) uid"
    by (simp add: completion_events_def rq ok cong: sum.case_cong)
  show "ask_handler var ?w' (JObj body) uid = ask_handler var w (JObj body) uid"
    by (simp add: h ask_handler_truthy_query_obj [OF q, of var ?w' uid] fe ce)
qed

lemma timetable_not_supplied:
  assumes q: "truthy (field body ''query'')"
    and ft: "\<not> truthy (field body ''timetable'')"
  shows "completion_calls (fst (ask_handler var w (JObj body) uid)) =
           [completion_request
              (systemPrompt var w (reduced_profile var w uid) (value_of (getTimetable w uid))
                 (value_of (getExams w uid)) (value_of (getGPA w uid))
                 (value_of (getCourseUnits w uid)) (value_of (getChatHistory w uid)))
              (field body ''query'')]"
    and "\<forall>b. (200, b) \<in> set (responses (fst (ask_handler var w (JObj body) uid)))
                \<longrightarrow> data_prop b ''timetable'' = value_of (getTimetable w uid)"
    and "valid_doc_id uid \<longrightarrow>
           StoreGet GetTimetable uid \<in> set (fst (ask_handler var w (JObj body) uid))"
proof -
  note h = ask_handler_truthy_query_obj [OF q]
  have eff: "effective_timetable w (JObj body) uid = value_of (getTimetable w uid)"
    using ft by (simp add: effective_timetable_def)
  show "completion_calls (fst (ask_handler var w (JObj body) uid)) =
           [completion_request
              (systemPrompt var w (reduced_profile var w uid) (value_of (getTimetable w uid))
                 (value_of (getExams w uid)) (value_of (getGPA w uid))
                 (value_of (getCourseUnits w uid)) (value_of (getChatHistory w uid)))
              (field body ''query'')]"
    by (simp add: h fetch_events_quiet completion_events_calls ask_request_def ask_prompt_def eff)
  show "\<forall>b. (200, b) \<in> set (responses (fst (ask_handler var w (JObj body) uid)))
                \<longrightarrow> data_prop b ''timetable'' = value_of (getTimetable w uid)"
  proof (intro allI impI)
    fix b assume "(200, b) \<in> set (responses (fst (ask_handler var w (JObj body) uid)))"
    then have "\<exists>a. b = ok_body var w (JObj body) uid a"
      by (auto simp: h fetch_events_quiet completion_events_def split: sum.splits)
    then show "data_prop b ''timetable'' = value_of (getTimetable w uid)"
      by (auto simp: ok_body_def data_prop_def field_def eff)
  qed
  show "valid_doc_id uid \<longrightarrow>
           StoreGet GetTimetable uid \<in> set (fst (ask_handler var w (JObj body) uid))"
    using ft by (simp add: h fetch_events_def getTimetable_reads)
qed

text \<open>
  C2 (as amended). For an authenticated /ask request with a valid query whose body holds
  a truthy \<open>timetable\<close> (any object or array, a non-empty string, a non-zero number,
  \<open>true\<close>): the system prompt sent to the Completion Client is built from the supplied
  value, a 200 response carries the supplied value as \<open>timetable\<close>, \<open>getTimetable\<close> issues no
  read, and the whole outcome is the same whatever the store would have answered to that
  read. The client reads the supplied value back unchanged when it holds no \<open>Infinity\<close>;
  an \<open>Infinity\<close> or \<open>-Infinity\<close> in it (the JSON number \<open>1e999\<close>) comes back as \<open>null\<close>.

  A falsy supplied value (\<open>null\<close>, \<open>false\<close>, \<open>0\<close>, the empty string) is treated as an absent
  one: the system prompt is built from the value \<open>getTimetable\<close> returns, a 200 response
  carries that value as \<open>timetable\<close>, and the timetable read is issued for every user
  identifier the store accepts.
\<close>

theorem supplied_timetable_overrides:
  "(truthy (field body ''query'') \<and> map_of body ''timetable'' = Some tt \<and> truthy tt \<longrightarrow>
       completion_calls (fst (ask_handler var w (JObj body) uid)) =
         [completion_request
            (systemPrompt var w (reduced_profile var w uid) tt (value_of (getExams w uid))
               (value_of (getGPA w uid)) (value_of (getCourseUnits w uid))
               (value_of (getChatHistory w uid)))
            (field body ''query'')]
     \<and> (\<forall>b. (200, b) \<in> set (responses (fst (ask_handler var w (JObj body) uid)))
            \<longrightarrow> data_prop b ''timetable'' = tt
              \<and> (plain_json tt \<longrightarrow> json_wire (data_prop b ''timetable'') = Some tt))
     \<and> (\<forall>u. StoreGet GetTimetable u \<notin> set (fst (ask_handler var w (JObj body) uid)))
     \<and> ask_handler var (w\<lparr>doc_get := (doc_get w)(GetTimetable := stored)\<rparr>) (JObj body) uid =
         ask_handler var w (JObj body) uid)
   \<and> json_wire (JInf positive) = Some JNull
   \<and> (truthy (field other ''query'') \<and> \<not> truthy (field other ''timetable'') \<longrightarrow>
       completion_calls (fst (ask_handler var w (JObj other) uid)) =
         [completion_request
            (systemPrompt var w (reduced_profile var w uid) (value_of (getTimetable w uid))
               (value_of (getExams w uid)) (value_of (getGPA w uid))
               (value_of (getCourseUnits w uid)) (value_of (getChatHistory w uid)))
            (field other ''query'')]
     \<and> (\<forall>b. (200, b) \<in> set (responses (fst (ask_handler var w (JObj other) uid)))
            \<longrightarrow> data_prop b ''timetable'' = value_of (getTimetable w uid))
     \<and> (valid_doc_id uid \<longrightarrow>
          StoreGet GetTimetable uid \<in> set (fst (ask_handler var w (JObj other) uid))))"
proof (intro conjI impI)
  assume a: "truthy (field body ''query'') \<and> map_of body ''timetable'' = Some tt \<and> truthy tt"
  then have q: "truthy (field body ''query'')" and m: "map_of body ''timetable'' = Some tt"
    and t: "truthy tt"
    by simp_all
  note s = timetable_supplied [OF q m t]
  show "completion_calls (fst (ask_handler var w (JObj body) uid)) =
         [completion_request
            (systemPrompt var w (reduced_profile var w uid) tt (value_of (getExams w uid))
               (value_of (getGPA w uid)) (value_of (getCourseUnits w uid))
               (value_of (getChatHistory w uid)))
            (field body ''query'')]"
    by (rule s(1))
  show "\<forall>b. (200, b) \<in> set (responses (fst (ask_handler var w (JObj body) uid)))
            \<longrightarrow> data_prop b ''timetable'' = tt
              \<and> (plain_json tt \<longrightarrow> json_wire (data_prop b ''timetable'') = Some tt)"
    using s(2) by (simp add: plain_json_wire)
  show "\<forall>u. StoreGet GetTimetable u \<notin> set (fst (ask_handler var w (JObj body) uid))"
    by (rule s(3))
  show "ask_handler var (w\<lparr>doc_get := (doc_get w)(GetTimetable := stored)\<rparr>) (JObj body) uid =
         ask_handler var w (JObj body) uid"
    by (rule s(4))
next
  show "json_wire (JInf positive) = Some JNull"
    by simp
next
  assume a: "truthy (field other ''query'') \<and> \<not> truthy (field other ''timetable'')"
  then have q: "truthy (field other ''query'')" and f: "\<not> truthy (field other ''timetable'')"
    by simp_all
  note n = timetable_not_supplied [OF q f]
  show "completion_calls (fst (ask_handler var w (JObj other) uid)) =
         [completion_request
            (systemPrompt var w (reduced_profile var w uid) (value_of (getTimetable w uid))
               (value_of (getExams w uid)) (value_of (getGPA w uid))
               (value_of (getCourseUnits w uid)) (value_of (getChatHistory w uid)))
            (field other ''query'')]"
    by (rule n(1))
  show "\<forall>b. (200, b) \<in> set (responses (fst (ask_handler var w (JObj other) uid)))
            \<longrightarrow> data_prop b ''timetable'' = value_of (getTimetable w uid)"
    by (rule n(2))
  assume "valid_doc_id uid"
  with n(3) show "StoreGet GetTimetable uid \<in> set (fst (ask_handler var w (JObj other) uid))"
    by simp
qed

theorem supplied_timetable_overrides_witness:
  "truthy (field [(''query'', JStr ''When is physics?''),
                  (''timetable'', JObj [(''friday'', JStr ''Physics'')])] ''query'')
   \<and> map_of [(''query'', JStr ''When is physics?''),
              (''timetable'', JObj [(''friday'', JStr ''Physics'')])] ''timetable'' =
       Some (JObj [(''friday'', JStr ''Physics'')])
   \<and> truthy (JObj [(''friday'', JStr ''Physics'')])
   \<and> plain_json (JObj [(''friday'', JStr ''Physics'')])
   \<and> StoreGet GetTimetable (JStr ''sam'') \<notin>
       set (fst (ask_handler ServerJs sample_env
                   (JObj [(''query'', JStr ''When is physics?''),
                          (''timetable'', JObj [(''friday'', JStr ''Physics'')])]) (JStr ''sam'')))
   \<and> responses (fst (ask_handler ServerJs sample_env
                   (JObj [(''query'', JStr ''When is physics?''),
                          (''timetable'', JObj [(''friday'', JStr ''Physics'')])]) (JStr ''sam''))) =
       [(200, JObj [(''answer'', JStr ''GPA data is unavailable.''),
                    (''profile'', JObj [(''nickname'', JStr ''Sam''), (''course'', JStr ''CS''),
                                        (''current_semester'', JNum 2), (''total_semesters'', JNum 8)]),
                    (''timetable'', JObj [(''friday'', JStr ''Physics'')]),
                    (''exams'', JArr []), (''gpa'', JObj []), (''courseUnits'', JObj [])])]
   \<and> json_wire (data_prop
         (JObj [(''answer'', JStr ''GPA data is unavailable.''),
                (''profile'', JObj [(''nickname'', JStr ''Sam''), (''course'', JStr ''CS''),
                                    (''current_semester'', JNum 2), (''total_semesters'', JNum 8)]),
                (''timetable'', JObj [(''friday'', JStr ''Physics'')]),
                (''exams'', JArr []), (''gpa'', JObj []), (''courseUnits'', JObj [])])
         ''timetable'') =
       Some (JObj [(''friday'', JStr ''Physics'')])
   \<and> json_wire (JObj [(''friday'', JInf True)]) = Some (JObj [(''friday'', JNull)])
   \<and> truthy (field [(''query'', JStr ''When is algebra?''), (''timetable'', JBool False)] ''query'')
   \<and> \<not> truthy (field [(''query'', JStr ''When is algebra?''), (''timetable'', JBool False)]
                ''timetable'')
   \<and> valid_doc_id (JStr ''sam'')
   \<and> StoreGet GetTimetable (JStr ''sam'') \<in>
       set (fst (ask_handler ServerJs sample_env
                   (JObj [(''query'', JStr ''When is algebra?''), (''timetable'', JBool False)])
                   (JStr ''sam'')))
   \<and> value_of (getTimetable sample_env (JStr ''sam'')) = JObj [(''monday'', JStr ''Algebra'')]
   \<and> responses (fst (ask_handler ServerJs sample_env
                   (JObj [(''query'', JStr ''When is algebra?''), (''timetable'', JBool False)])
                   (JStr ''sam''))) =
       [(200, JObj [(''answer'', JStr ''GPA data is unavailable.''),
                    (''profile'', JObj [(''nickname'', JStr ''Sam''), (''course'', JStr ''CS''),
                                        (''current_semester'', JNum 2), (''total_semesters'', JNum 8)]),
                    (''timetable'', JObj [(''monday'', JStr ''Algebra'')]),
                    (''exams'', JArr []), (''gpa'', JObj []), (''courseUnits'', JObj [])])]"
proof -
  let ?body = "[(''query'', JStr ''When is physics?''),
                (''timetable'', JObj [(''friday'', JStr ''Physics'')])]"
  let ?other = "[(''query'', JStr ''When is algebra?''), (''timetable'', JBool False)]"
  let ?ok = "JObj [(''answer'', JStr ''GPA data is unavailable.''),
                (''profile'', JObj [(''nickname'', JStr ''Sam''), (''course'', JStr ''CS''),
                                    (''current_semester'', JNum 2), (''total_semesters'', JNum 8)]),
                (''timetable'', JObj [(''friday'', JStr ''Physics'')]),
                (''exams'', JArr []), (''gpa'', JObj []), (''courseUnits'', JObj [])]"
  have q: "truthy (field ?body ''query'')"
    by (simp add: field_def)
  have m: "map_of ?body ''timetable'' = Some (JObj [(''friday'', JStr ''Physics'')])"
    by simp
  have t: "truthy (JObj [(''friday'', JStr ''Physics'')])"
    "plain_json (JObj [(''friday'', JStr ''Physics'')])"
    by simp_all
  have o: "truthy (field ?other ''query'')" "\<not> truthy (field ?other ''timetable'')"
    by (simp_all add: field_def)
  have v: "valid_doc_id (JStr ''sam'')"
    by simp
  have r: "responses (fst (ask_handler ServerJs sample_env (JObj ?body) (JStr ''sam''))) = [(200, ?ok)]"
    by (simp add: sample_run_obj [OF q] field_def)
  have r': "responses (fst (ask_handler ServerJs sample_env (JObj ?other) (JStr ''sam''))) =
       [(200, JObj [(''answer'', JStr ''GPA data is unavailable.''),
                    (''profile'', JObj [(''nickname'', JStr ''Sam''), (''course'', JStr ''CS''),
                                        (''current_semester'', JNum 2), (''total_semesters'', JNum 8)]),
                    (''timetable'', JObj [(''monday'', JStr ''Algebra'')]),
                    (''exams'', JArr []), (''gpa'', JObj []), (''courseUnits'', JObj [])])]"
    by (simp add: sample_run_obj [OF o(1)] field_def)
  have i: "(200, ?ok) \<in> set (responses (fst (ask_handler ServerJs sample_env (JObj ?body) (JStr ''sam''))))"
    unfolding r by simp
  have g: "value_of (getTimetable sample_env (JStr ''sam'')) = JObj [(''monday'', JStr ''Algebra'')]"
    by (simp add: getTimetable_cases sample_sam_doc sam_doc_def value_of_def field_def)
  have w: "json_wire (JObj [(''friday'', JInf True)]) = Some (JObj [(''friday'', JNull)])"
    by simp
  note s = supplied_timetable_overrides [where body = ?body
      and tt = "JObj [(''friday'', JStr ''Physics'')]" and other = ?other and var = ServerJs
      and w = sample_env and uid = "JStr ''sam''"]
  from s q m t have n: "StoreGet GetTimetable (JStr ''sam'') \<notin>
       set (fst (ask_handler ServerJs sample_env (JObj ?body) (JStr ''sam'')))"
    by blast
  from s q m t i have j: "json_wire (data_prop ?ok ''timetable'') =
      Some (JObj [(''friday'', JStr ''Physics'')])"
    by blast
  from s o v have k: "StoreGet GetTimetable (JStr ''sam'') \<in>
       set (fst (ask_handler ServerJs sample_env (JObj ?other) (JStr ''sam'')))"
    by blast
  from q m t n r j w o v k g r' show ?thesis
    by blast
qed

text \<open>
  A body that does contain a \<open>timetable\<close> field, with the value \<open>0\<close>: the stored timetable
  is read, used and echoed.
\<close>

theorem falsy_timetable_counterexample:
  "map_of [(''query'', JStr ''When is algebra?''), (''timetable'', JNum 0)] ''timetable'' = Some (JNum 0)
   \<and> effective_timetable sample_env
         (JObj [(''query'', JStr ''When is algebra?''), (''timetable'', JNum 0)]) (JStr ''sam'') =
       JObj [(''monday'', JStr ''Algebra'')]
   \<and> ask_handler ServerJs sample_env
         (JObj [(''query'', JStr ''When is algebra?''), (''timetable'', JNum 0)]) (JStr ''sam'') =
       ([StoreGet GetUserData (JStr ''sam''), StoreGet GetTimetable (JStr ''sam''),
         StoreGet GetExams (JStr ''sam''), StoreGet GetGPA (JStr ''sam''),
         StoreGet GetCourseUnits (JStr ''sam''), StoreQuery (JStr ''sam'') chat_history_query,
         CompletionsCreate
           (ask_request ServerJs sample_env
              (JObj [(''query'', JStr ''When is algebra?''), (''timetable'', JNum 0)]) (JStr ''sam'')),
         Respond 200
           (JObj [(''answer'', JStr ''GPA data is unavailable.''),
                  (''profile'', JObj [(''nickname'', JStr ''Sam''), (''course'', JStr ''CS''),
                                      (''current_semester'', JNum 2), (''total_semesters'', JNum 8)]),
                  (''timetable'', JObj [(''monday'', JStr ''Algebra'')]),
                  (''exams'', JArr []), (''gpa'', JObj []), (''courseUnits'', JObj [])])],
        Inr ())"
proof -
  have q: "truthy (field [(''query'', JStr ''When is algebra?''), (''timetable'', JNum 0)] ''query'')"
    by (simp add: field_def)
  have g: "value_of (getTimetable sample_env (JStr ''sam'')) = JObj [(''monday'', JStr ''Algebra'')]"
    by (simp add: getTimetable_cases sample_sam_doc sam_doc_def value_of_def field_def)
  show ?thesis
    by (simp add: sample_run_obj [OF q] effective_timetable_def g field_def)
qed

subsection \<open>The reduced profile\<close>

lemma formattedProfile_truthy:
  "truthy p \<Longrightarrow> formattedProfile p = Inr (JObj (map (\<lambda>k. (k, data_prop p k)) whitelist))"
  by (cases p) (simp_all add: formattedProfile_def data_prop_def whitelist_def field_def)

lemma formattedProfile_falsy: "\<not> truthy p \<Longrightarrow> formattedProfile p = Inr (JObj [])"
  by (simp add: formattedProfile_def)

lemma serialised_whitelist:
  "map fst (serialised_props (map (\<lambda>k. (k, f k)) ks)) = filter (\<lambda>k. \<not> is_undefined (f k)) ks"
  by (induction ks) (simp_all add: serialised_props_def)

text \<open>
  C6 (as amended). The \<open>profile\<close> of a 200 response is the reduced profile. For a stored
  profile document it is the object with exactly the four whitelisted keys \<open>nickname\<close>,
  \<open>course\<close>, \<open>current_semester\<close>, \<open>total_semesters\<close>, each holding the stored value, or
  \<open>undefined\<close> when the document lacks it; no other stored field is included. Serialised
  as JSON, it shows those of the four keys that the document defines. It is \<open>{}\<close> when the
  profile is \<open>null\<close>.
\<close>

theorem reduced_profile_whitelisted:
  assumes q: "truthy (field body ''query'')"
  shows "(\<forall>b. (200, b) \<in> set (responses (fst (ask_handler var w (JObj body) uid)))
            \<longrightarrow> data_prop b ''profile'' = reduced_profile var w uid)
         \<and> (truthy (value_of (getUserData var w uid)) \<longrightarrow>
              reduced_profile var w uid =
                JObj (map (\<lambda>k. (k, data_prop (value_of (getUserData var w uid)) k)) whitelist)
              \<and> map fst (serialised_props
                    (map (\<lambda>k. (k, data_prop (value_of (getUserData var w uid)) k)) whitelist)) =
                  filter (\<lambda>k. \<not> is_undefined (data_prop (value_of (getUserData var w uid)) k)) whitelist)
         \<and> (\<not> truthy (value_of (getUserData var w uid')) \<longrightarrow> reduced_profile var w uid' = JObj [])
         \<and> whitelist = [''nickname'', ''course'', ''current_semester'', ''total_semesters'']"
proof -
  note h = ask_handler_truthy_query_obj [OF q]
  have a: "\<forall>b. (200, b) \<in> set (responses (fst (ask_handler var w (JObj body) uid)))
            \<longrightarrow> data_prop b ''profile'' = reduced_profile var w uid"
  proof (intro allI impI)
    fix b assume "(200, b) \<in> set (responses (fst (ask_handler var w (JObj body) uid)))"
    then have "\<exists>a. b = ok_body var w (JObj body) uid a"
      by (auto simp: h fetch_events_quiet completion_events_def split: sum.splits)
    then show "data_prop b ''profile'' = reduced_profile var w uid"
      by (auto simp: ok_body_def data_prop_def field_def)
  qed
  have b: "truthy (value_of (getUserData var w uid)) \<longrightarrow>
              reduced_profile var w uid =
                JObj (map (\<lambda>k. (k, data_prop (value_of (getUserData var w uid)) k)) whitelist)"
    by (simp add: reduced_profile_def formattedProfile_truthy)
  have c: "\<not> truthy (value_of (getUserData var w uid')) \<longrightarrow> reduced_profile var w uid' = JObj []"
    by (simp add: reduced_profile_def formattedProfile_falsy)
  have d: "map fst (serialised_props
                    (map (\<lambda>k. (k, data_prop (value_of (getUserData var w uid)) k)) whitelist)) =
                  filter (\<lambda>k. \<not> is_undefined (data_prop (value_of (getUserData var w uid)) k)) whitelist"
    by (rule serialised_whitelist)
  have e: "whitelist = [''nickname'', ''course'', ''current_semester'', ''total_semesters'']"
    by (simp add: whitelist_def)
  from a b c d e show ?thesis by blast
qed

theorem reduced_profile_whitelisted_witness:
  "truthy (field [(''query'', JStr ''What is my GPA?'')] ''query'')
   \<and> responses (fst (ask_handler ServerJs sample_env (JObj [(''query'', JStr ''What is my GPA?'')]) (JStr ''sam''))) =
       [(200, JObj [(''answer'', JStr ''GPA data is unavailable.''),
                  (''profile'', JObj [(''nickname'', JStr ''Sam''), (''course'', JStr ''CS''),
                                      (''current_semester'', JNum 2), (''total_semesters'', JNum 8)]),
                  (''timetable'', JObj [(''monday'', JStr ''Algebra'')]),
                  (''exams'', JArr []), (''gpa'', JObj []), (''courseUnits'', JObj [])])]
   \<and> truthy (value_of (getUserData ServerJs sample_env (JStr ''sam'')))
   \<and> reduced_profile ServerJs sample_env (JStr ''sam'') =
       JObj [(''nickname'', JStr ''Sam''), (''course'', JStr ''CS''),
             (''current_semester'', JNum 2), (''total_semesters'', JNum 8)]
   \<and> value_of (getUserData ServerJs sample_env (JStr ''ghost'')) = JNull
   \<and> reduced_profile ServerJs sample_env (JStr ''ghost'') = JObj []"
proof -
  have q: "truthy (field [(''query'', JStr ''What is my GPA?'')] ''query'')"
    by (simp add: field_def)
  have v: "value_of (getUserData ServerJs sample_env (JStr ''sam'')) = sam_doc"
    by (simp add: value_of_def getUserData_cases sample_sam_doc)
  have n: "value_of (getUserData ServerJs sample_env (JStr ''ghost'')) = JNull"
    by (simp add: value_of_def getUserData_cases sample_env_def)
  have tv: "truthy sam_doc"
    by (simp add: sam_doc_def)
  note t = reduced_profile_whitelisted [OF q, of ServerJs sample_env "JStr ''sam''" "JStr ''ghost''"]
  from t
  have "truthy (value_of (getUserData ServerJs sample_env (JStr ''sam''))) \<longrightarrow>
        reduced_profile ServerJs sample_env (JStr ''sam'') =
          JObj (map (\<lambda>k. (k, data_prop (value_of (getUserData ServerJs sample_env (JStr ''sam''))) k))
                  whitelist)"
    by blast
  with v tv have r: "reduced_profile ServerJs sample_env (JStr ''sam'') =
      JObj (map (\<lambda>k. (k, data_prop sam_doc k)) whitelist)"
    by simp
  have r': "reduced_profile ServerJs sample_env (JStr ''sam'') =
       JObj [(''nickname'', JStr ''Sam''), (''course'', JStr ''CS''),
             (''current_semester'', JNum 2), (''total_semesters'', JNum 8)]"
    unfolding r by (simp add: whitelist_def sam_doc_def data_prop_def field_def)
  from t
  have "\<not> truthy (value_of (getUserData ServerJs sample_env (JStr ''ghost''))) \<longrightarrow>
        reduced_profile ServerJs sample_env (JStr ''ghost'') = JObj []"
    by blast
  with n have g: "reduced_profile ServerJs sample_env (JStr ''ghost'') = JObj []"
    by simp
  have s: "responses (fst (ask_handler ServerJs sample_env (JObj [(''query'', JStr ''What is my GPA?'')]) (JStr ''sam''))) =
       [(200, JObj [(''answer'', JStr ''GPA data is unavailable.''),
                  (''profile'', JObj [(''nickname'', JStr ''Sam''), (''course'', JStr ''CS''),
                                      (''current_semester'', JNum 2), (''total_semesters'', JNum 8)]),
                  (''timetable'', JObj [(''monday'', JStr ''Algebra'')]),
                  (''exams'', JArr []), (''gpa'', JObj []), (''courseUnits'', JObj [])])]"
    by (simp add: sample_run_obj [OF q] field_def)
  from q s v tv r' n g show ?thesis by simp
qed

text \<open>
  A stored profile that holds only a nickname: three of the four keys are \<open>undefined\<close> in
  the reduced profile, and the JSON of the response holds \<open>nickname\<close> alone.
\<close>

theorem sparse_profile_counterexample:
  "doc_get sparse_env GetUserData (JStr ''sam'') =
     Inr \<lparr>snap_exists = True, snap_data = JObj [(''nickname'', JStr ''Sam'')]\<rparr>
   \<and> responses (fst (ask_handler ServerJs sparse_env (JObj [(''query'', JStr ''Hi'')]) (JStr ''sam''))) =
       [(200, JObj [(''answer'', JStr ''GPA data is unavailable.''),
                    (''profile'', JObj [(''nickname'', JStr ''Sam''), (''course'', JUndefined),
                                        (''current_semester'', JUndefined),
                                        (''total_semesters'', JUndefined)]),
                    (''timetable'', JObj []), (''exams'', JArr []), (''gpa'', JObj []),
                    (''courseUnits'', JObj [])])]
   \<and> serialised_props [(''nickname'', JStr ''Sam''), (''course'', JUndefined),
                        (''current_semester'', JUndefined), (''total_semesters'', JUndefined)] =
       [(''nickname'', JStr ''Sam'')]"
proof -
  have q: "truthy (field [(''query'', JStr ''Hi'')] ''query'')"
    by (simp add: field_def)
  have d: "doc_get sparse_env a u =
     Inr \<lparr>snap_exists = True, snap_data = JObj [(''nickname'', JStr ''Sam'')]\<rparr>" for a u
    by (simp add: sparse_env_def)
  have c: "completions_create sparse_env r = Inr sample_completion" for r
    by (simp add: sparse_env_def sample_env_def)
  have ok: "ok_body ServerJs sparse_env (JObj [(''query'', JStr ''Hi'')]) (JStr ''sam'') a =
       JObj [(''answer'', a),
             (''profile'', JObj [(''nickname'', JStr ''Sam''), (''course'', JUndefined),
                                 (''current_semester'', JUndefined),
                                 (''total_semesters'', JUndefined)]),
             (''timetable'', JObj []), (''exams'', JArr []), (''gpa'', JObj []),
             (''courseUnits'', JObj [])]" for a
    by (simp add: ok_body_def effective_timetable_def reduced_profile_def value_of_def
        formattedProfile_def getUserData_cases getTimetable_cases getExams_cases getGPA_cases
        getCourseUnits_cases d field_def)
  have ce: "responses (completion_events ServerJs sparse_env (JObj [(''query'', JStr ''Hi'')]) (JStr ''sam'')) =
      [(200, ok_body ServerJs sparse_env (JObj [(''query'', JStr ''Hi'')]) (JStr ''sam'')
               (JStr ''GPA data is unavailable.''))]"
    by (simp add: completion_events_def c sample_completion_def answer_of_def field_def)
  show ?thesis
    by (simp add: ask_handler_truthy_query_obj [OF q] fetch_events_quiet ce ok d serialised_props_def)
qed

subsection \<open>The system prompt\<close>

text \<open>
  C8 (as amended). For a request with a valid query, the Completion Client is called once,
  with the system prompt and then the query as messages. In server.js the prompt is the
  persona text, then the date and time block (the current time rendered by
  \<open>toLocaleString("en-UG", {timeZone: "Africa/Kampala"})\<close>, and its ISO-8601 rendering),
  then the six data categories (profile, timetable, exams, GPA, course units, recent
  chats), each as \<open>JSON.stringify(v, null, 2)\<close>, then the rules. In part_000 the prompt is
  the persona text, the six data categories and the rules: it has no date and time block.
\<close>

theorem prompt_layout:
  assumes q: "truthy (field body ''query'')"
  shows "completion_calls (fst (ask_handler var w (JObj body) uid)) = [ask_request var w (JObj body) uid]
     \<and> messages (ask_request var w (JObj body) uid) =
         [(''system'', JStr (ask_prompt var w (JObj body) uid)), (''user'', field body ''query'')]
     \<and> ask_prompt ServerJs w (JObj body) uid =
         persona_ServerJs
         @ date_block w (new_Date w PromptTime)
         @ data_block_ServerJs w (reduced_profile ServerJs w uid) (effective_timetable w (JObj body) uid)
             (value_of (getExams w uid)) (value_of (getGPA w uid))
             (value_of (getCourseUnits w uid)) (value_of (getChatHistory w uid))
         @ rules_ServerJs
     \<and> ask_prompt Part000 w (JObj body) uid =
         persona_Part000
         @ data_block_Part000 w (reduced_profile Part000 w uid) (effective_timetable w (JObj body) uid)
             (value_of (getExams w uid)) (value_of (getGPA w uid))
             (value_of (getCourseUnits w uid)) (value_of (getChatHistory w uid))
         @ rules_Part000
     \<and> date_block w now =
         pushpin @ '' **Current Date & Time Info (Uganda):**'' @ nl
         @ ''- Full Date & Time: '' @ toLocaleString w now ''en-UG'' ''Africa/Kampala'' @ nl
         @ ''- ISO: '' @ toISOString w now @ nl @ nl
     \<and> data_block_ServerJs w p t x g c l =
         pushpin @ '' USER DATA (only use if relevant):'' @ nl
         @ ''PROFILE: '' @ JSON_stringify w p @ nl
         @ ''TIMETABLE: '' @ JSON_stringify w t @ nl
         @ ''EXAMS: '' @ JSON_stringify w x @ nl
         @ ''GPA: '' @ JSON_stringify w g @ nl
         @ ''COURSE UNITS: '' @ JSON_stringify w c @ nl
         @ ''RECENT CHATS: '' @ JSON_stringify w l @ nl @ nl
     \<and> data_block_Part000 w p t x g c l =
         ''PROFILE:'' @ nl @ JSON_stringify w p @ nl @ nl
         @ ''TIMETABLE:'' @ nl @ JSON_stringify w t @ nl @ nl
         @ ''EXAMS:'' @ nl @ JSON_stringify w x @ nl @ nl
         @ ''GPA:'' @ nl @ JSON_stringify w g @ nl @ nl
         @ ''COURSE UNITS:'' @ nl @ JSON_stringify w c @ nl @ nl
         @ ''RECENT CHATS:'' @ nl @ JSON_stringify w l @ nl @ nl"
proof -
  have a: "completion_calls (fst (ask_handler var w (JObj body) uid)) = [ask_request var w (JObj body) uid]"
    by (simp add: ask_handler_truthy_query_obj [OF q] fetch_events_quiet completion_events_calls)
  have b: "messages (ask_request var w (JObj body) uid) =
         [(''system'', JStr (ask_prompt var w (JObj body) uid)), (''user'', field body ''query'')]"
    by (simp add: ask_request_def completion_request_def)
  have c: "ask_prompt ServerJs w (JObj body) uid =
         persona_ServerJs
         @ date_block w (new_Date w PromptTime)
         @ data_block_ServerJs w (reduced_profile ServerJs w uid) (effective_timetable w (JObj body) uid)
             (value_of (getExams w uid)) (value_of (getGPA w uid))
             (value_of (getCourseUnits w uid)) (value_of (getChatHistory w uid))
         @ rules_ServerJs"
    by (simp add: ask_prompt_def systemPrompt_def)
  have d: "ask_prompt Part000 w (JObj body) uid =
         persona_Part000
         @ data_block_Part000 w (reduced_profile Part000 w uid) (effective_timetable w (JObj body) uid)
             (value_of (getExams w uid)) (value_of (getGPA w uid))
             (value_of (getCourseUnits w uid)) (value_of (getChatHistory w uid))
         @ rules_Part000"
    by (simp add: ask_prompt_def systemPrompt_def)
  have e: "date_block w now =
         pushpin @ '' **Current Date & Time Info (Uganda):**'' @ nl
         @ ''- Full Date & Time: '' @ toLocaleString w now ''en-UG'' ''Africa/Kampala'' @ nl
         @ ''- ISO: '' @ toISOString w now @ nl @ nl"
    unfolding date_block_def by simp
  have f: "data_block_ServerJs w p t x g c l =
         pushpin @ '' USER DATA (only use if relevant):'' @ nl
         @ ''PROFILE: '' @ JSON_stringify w p @ nl
         @ ''TIMETABLE: '' @ JSON_stringify w t @ nl
         @ ''EXAMS: '' @ JSON_stringify w x @ nl
         @ ''GPA: '' @ JSON_stringify w g @ nl
         @ ''COURSE UNITS: '' @ JSON_stringify w c @ nl
         @ ''RECENT CHATS: '' @ JSON_stringify w l @ nl @ nl"
    unfolding data_block_ServerJs_def by simp
  have g: "data_block_Part000 w p t x g c l =
         ''PROFILE:'' @ nl @ JSON_stringify w p @ nl @ nl
         @ ''TIMETABLE:'' @ nl @ JSON_stringify w t @ nl @ nl
         @ ''EXAMS:'' @ nl @ JSON_stringify w x @ nl @ nl
         @ ''GPA:'' @ nl @ JSON_stringify w g @ nl @ nl
         @ ''COURSE UNITS:'' @ nl @ JSON_stringify w c @ nl @ nl
         @ ''RECENT CHATS:'' @ nl @ JSON_stringify w l @ nl @ nl"
    unfolding data_block_Part000_def by simp
  show ?thesis
    apply (intro conjI)
          apply (rule a)
         apply (rule b)
        apply (rule c)
       apply (rule d)
      apply (rule e)
     apply (rule f)
    apply (rule g)
    done
qed

theorem prompt_layout_witness:
  "truthy (field [(''query'', JStr ''What is my GPA?'')] ''query'')
   \<and> completion_calls (fst (ask_handler ServerJs sample_env (JObj [(''query'', JStr ''What is my GPA?'')]) (JStr ''sam''))) =
       [ask_request ServerJs sample_env (JObj [(''query'', JStr ''What is my GPA?'')]) (JStr ''sam'')]
   \<and> str_includes (date_block sample_env 5000) ''- ISO: <ISO time>''
   \<and> str_includes (date_block sample_env 5000) ''- Full Date & Time: <time in Africa/Kampala>''"
proof -
  have q: "truthy (field [(''query'', JStr ''What is my GPA?'')] ''query'')"
    by (simp add: field_def)
  note t = prompt_layout [OF q, of ServerJs sample_env "JStr ''sam''" 5000]
  from t have a: "completion_calls (fst (ask_handler ServerJs sample_env (JObj [(''query'', JStr ''What is my GPA?'')]) (JStr ''sam''))) =
       [ask_request ServerJs sample_env (JObj [(''query'', JStr ''What is my GPA?'')]) (JStr ''sam'')]"
    by blast
  from t have e: "date_block sample_env 5000 =
         pushpin @ '' **Current Date & Time Info (Uganda):**'' @ nl
         @ ''- Full Date & Time: '' @ toLocaleString sample_env 5000 ''en-UG'' ''Africa/Kampala'' @ nl
         @ ''- ISO: '' @ toISOString sample_env 5000 @ nl @ nl"
    by blast
  have i: "str_includes (date_block sample_env 5000) ''- ISO: <ISO time>''"
    unfolding e by (simp add: sample_env_def pushpin_def nl_def startsWith_def)
  have l: "str_includes (date_block sample_env 5000) ''- Full Date & Time: <time in Africa/Kampala>''"
    unfolding e by (simp add: sample_env_def pushpin_def nl_def startsWith_def)
  from q a i l show ?thesis by simp
qed

text \<open>
  A successful request served by part_000: the prompt passed to the Completion Client
  contains neither rendering of the current time.
\<close>

theorem prompt_without_clock_counterexample:
  "responses (fst (ask_handler Part000 sample_env (JObj [(''query'', JStr ''What is my GPA?'')]) (JStr ''sam''))) =
       [(200, JObj [(''answer'', JStr ''GPA data is unavailable.''),
                  (''profile'', JObj [(''nickname'', JStr ''Sam''), (''course'', JStr ''CS''),
                                      (''current_semester'', JNum 2), (''total_semesters'', JNum 8)]),
                  (''timetable'', JObj [(''monday'', JStr ''Algebra'')]),
                  (''exams'', JArr []), (''gpa'', JObj []), (''courseUnits'', JObj [])])]
   \<and> completion_calls (fst (ask_handler Part000 sample_env (JObj [(''query'', JStr ''What is my GPA?'')]) (JStr ''sam''))) =
       [completion_request
          (ask_prompt Part000 sample_env (JObj [(''query'', JStr ''What is my GPA?'')]) (JStr ''sam''))
          (JStr ''What is my GPA?'')]
   \<and> toISOString sample_env (new_Date sample_env PromptTime) = ''<ISO time>''
   \<and> toLocaleString sample_env (new_Date sample_env PromptTime) ''en-UG'' ''Africa/Kampala'' =
       ''<time in Africa/Kampala>''
   \<and> \<not> str_includes (ask_prompt Part000 sample_env (JObj [(''query'', JStr ''What is my GPA?'')]) (JStr ''sam''))
          ''<ISO time>''
   \<and> \<not> str_includes (ask_prompt Part000 sample_env (JObj [(''query'', JStr ''What is my GPA?'')]) (JStr ''sam''))
          ''<time in Africa/Kampala>''
   \<and> \<not> str_includes (ask_prompt Part000 sample_env (JObj [(''query'', JStr ''What is my GPA?'')]) (JStr ''sam''))
          ''Date''"
proof -
  have q: "truthy (field [(''query'', JStr ''What is my GPA?'')] ''query'')"
    by (simp add: field_def)
  have r: "responses (fst (ask_handler Part000 sample_env (JObj [(''query'', JStr ''What is my GPA?'')]) (JStr ''sam''))) =
       [(200, JObj [(''answer'', JStr ''GPA data is unavailable.''),
                  (''profile'', JObj [(''nickname'', JStr ''Sam''), (''course'', JStr ''CS''),
                                      (''current_semester'', JNum 2), (''total_semesters'', JNum 8)]),
                  (''timetable'', JObj [(''monday'', JStr ''Algebra'')]),
                  (''exams'', JArr []), (''gpa'', JObj []), (''courseUnits'', JObj [])])]"
    by (simp add: sample_run_obj [OF q] field_def)
  have c: "completion_calls (fst (ask_handler Part000 sample_env (JObj [(''query'', JStr ''What is my GPA?'')]) (JStr ''sam''))) =
       [completion_request
          (ask_prompt Part000 sample_env (JObj [(''query'', JStr ''What is my GPA?'')]) (JStr ''sam''))
          (JStr ''What is my GPA?'')]"
    by (simp add: sample_run_obj [OF q] field_def ask_request_def)
  have j: "JSON_stringify sample_env v = ''<JSON>''" for v
    by (simp add: sample_env_def)
  have p: "ask_prompt Part000 sample_env (JObj [(''query'', JStr ''What is my GPA?'')]) (JStr ''sam'') =
      persona_Part000
      @ concat [''PROFILE:'', nl, ''<JSON>'', nl, nl, ''TIMETABLE:'', nl, ''<JSON>'', nl, nl,
                ''EXAMS:'', nl, ''<JSON>'', nl, nl, ''GPA:'', nl, ''<JSON>'', nl, nl,
                ''COURSE UNITS:'', nl, ''<JSON>'', nl, nl, ''RECENT CHATS:'', nl, ''<JSON>'', nl, nl]
      @ rules_Part000"
    by (simp add: ask_prompt_def systemPrompt_def data_block_Part000_def j)
  have n1: "\<not> str_includes (ask_prompt Part000 sample_env (JObj [(''query'', JStr ''What is my GPA?'')]) (JStr ''sam''))
          ''<ISO time>''"
    unfolding p
    by (simp add: persona_Part000_def rules_Part000_def nl_def em_dash_def en_dash_def startsWith_def)
  have n2: "\<not> str_includes (ask_prompt Part000 sample_env (JObj [(''query'', JStr ''What is my GPA?'')]) (JStr ''sam''))
          ''<time in Africa/Kampala>''"
    unfolding p
    by (simp add: persona_Part000_def rules_Part000_def nl_def em_dash_def en_dash_def startsWith_def)
  have n3: "\<not> str_includes (ask_prompt Part000 sample_env (JObj [(''query'', JStr ''What is my GPA?'')]) (JStr ''sam''))
          ''Date''"
    unfolding p
    by (simp add: persona_Part000_def rules_Part000_def nl_def em_dash_def en_dash_def startsWith_def)
  have t: "toISOString sample_env (new_Date sample_env PromptTime) = ''<ISO time>''"
    "toLocaleString sample_env (new_Date sample_env PromptTime) ''en-UG'' ''Africa/Kampala'' =
       ''<time in Africa/Kampala>''"
    by (simp_all add: sample_env_def)
  from r c t n1 n2 n3 show ?thesis by simp
qed
end
